theory Spec2Isabelle
  imports Complex_Main "HOL-Library.Word"
begin

section \<open>JavaScript strings\<close>

text \<open>
  A JavaScript string is a sequence of UTF-16 code units. String literals of the source
  are written \<open>js ''...''\<close>; code units beyond ASCII are written as numbers.
\<close>

type_synonym code_unit = "16 word"
type_synonym jsstring = "code_unit list"
type_synonym byte = "8 word"

definition js :: "string \<Rightarrow> jsstring" where
  "js s = map of_char s"

text \<open>
  The set matched by \<open>\s\<close> in a regular expression, which is also the set removed by
  \<open>String.prototype.trim\<close> and skipped by \<open>parseInt\<close>: WhiteSpace and LineTerminator.
\<close>

definition isWhiteSpace :: "code_unit \<Rightarrow> bool" where
  "isWhiteSpace c \<longleftrightarrow>
     (0x0009 \<le> c \<and> c \<le> 0x000D) \<or> c = 0x0020 \<or> c = 0x00A0 \<or> c = 0x1680 \<or>
     (0x2000 \<le> c \<and> c \<le> 0x200A) \<or> c = 0x2028 \<or> c = 0x2029 \<or> c = 0x202F \<or>
     c = 0x205F \<or> c = 0x3000 \<or> c = 0xFEFF"

definition trimStart :: "jsstring \<Rightarrow> jsstring" where
  "trimStart s = dropWhile isWhiteSpace s"

definition trimEnd :: "jsstring \<Rightarrow> jsstring" where
  "trimEnd s = rev (dropWhile isWhiteSpace (rev s))"

definition trim :: "jsstring \<Rightarrow> jsstring" where
  "trim s = trimEnd (trimStart s)"

text \<open>\<open>Array.prototype.join\<close> on an array of strings.\<close>

fun join :: "jsstring \<Rightarrow> jsstring list \<Rightarrow> jsstring" where
  "join sep [] = []"
| "join sep [x] = x"
| "join sep (x # y # ys) = x @ sep @ join sep (y # ys)"

text \<open>\<open>String.prototype.includes\<close>: the argument occurs as a contiguous run.\<close>

fun startsWith :: "jsstring \<Rightarrow> jsstring \<Rightarrow> bool" where
  "startsWith s [] = True"
| "startsWith [] (p # ps) = False"
| "startsWith (c # cs) (p # ps) = (c = p \<and> startsWith cs ps)"

fun includes_str :: "jsstring \<Rightarrow> jsstring \<Rightarrow> bool" where
  "includes_str [] p = (p = [])"
| "includes_str (c # cs) p = (startsWith (c # cs) p \<or> includes_str cs p)"


section \<open>The escaping utility (src/utils/escape-html.ts)\<close>

text \<open>The table \<open>HTML_ESCAPE_MAP\<close>, keyed by one-character strings, in source order.\<close>

definition HTML_ESCAPE_MAP :: "(jsstring \<times> jsstring) list" where
  "HTML_ESCAPE_MAP =
     [(js ''&'', js ''&amp;''),
      (js ''<'', js ''&lt;''),
      (js ''>'', js ''&gt;''),
      (js [CHR 0x22], js ''&quot;''),
      (js [CHR 0x27], js ''&#x27;'')]"

text \<open>The character class \<open>/[&<>"']/\<close> of the global replace.\<close>

definition isHtmlSpecial :: "code_unit \<Rightarrow> bool" where
  "isHtmlSpecial c \<longleftrightarrow> c = 0x26 \<or> c = 0x3C \<or> c = 0x3E \<or> c = 0x22 \<or> c = 0x27"

text \<open>The replacer \<open>(char) => HTML_ESCAPE_MAP[char] || char\<close>.\<close>

definition escapeReplacer :: "code_unit \<Rightarrow> jsstring" where
  "escapeReplacer c =
     (case map_of HTML_ESCAPE_MAP [c] of
        Some e \<Rightarrow> if e = [] then [c] else e
      | None \<Rightarrow> [c])"

text \<open>
  \<open>input.replace(/[&<>"']/g, replacer)\<close>: every code unit of the class is replaced, all
  others are kept. The guard \<open>typeof input !== 'string'\<close> cannot fire on a string.
\<close>

definition escapeHtml :: "jsstring \<Rightarrow> jsstring" where
  "escapeHtml input = concat (map (\<lambda>c. if isHtmlSpecial c then escapeReplacer c else [c]) input)"



text \<open>The five entities the table can produce.\<close>

definition entities :: "jsstring list" where
  "entities = map snd HTML_ESCAPE_MAP"


section \<open>JavaScript numbers and values\<close>

text \<open>
  A number is an IEEE double: a finite value, \<open>NaN\<close> or an infinity. A finite double is
  modelled by the rational it denotes (every double is one; negative zero is identified
  with zero, which no operation used here tells apart).
\<close>

datatype jsnum = Finite rat | NaN | PosInfinity | NegInfinity

text \<open>
  What the program takes from its host and does not define itself: the HMAC-SHA256
  primitive of the crypto module, the rendering of every finite number that is not an
  integer of magnitude up to \<open>2^53\<close> (\<open>fractionToString\<close>), the rounding of integers
  beyond \<open>2^53\<close> to a double, the lower-casing of non-ASCII text, the process
  environment, and the random source.
\<close>

record host =
  hmacSha256 :: "byte list \<Rightarrow> byte list \<Rightarrow> byte list"
  fractionToString :: "rat \<Rightarrow> jsstring"
  integerToNumber :: "int \<Rightarrow> jsnum"
  lowerCaseMapping :: "jsstring \<Rightarrow> jsstring"
  processEnv :: "jsstring \<rightharpoonup> jsstring"
  randomInt :: "int \<Rightarrow> int \<Rightarrow> int"

definition isFinite :: "jsnum \<Rightarrow> bool" where
  "isFinite x = (case x of Finite q \<Rightarrow> True | _ \<Rightarrow> False)"

definition isInteger :: "jsnum \<Rightarrow> bool" where
  "isInteger x = (case x of Finite q \<Rightarrow> of_int \<lfloor>q\<rfloor> = q | _ \<Rightarrow> False)"

text \<open>The relational operators \<open><\<close> and \<open><=\<close> on numbers; every comparison with \<open>NaN\<close> is false.\<close>

fun num_less :: "jsnum \<Rightarrow> jsnum \<Rightarrow> bool" where
  "num_less NaN y = False"
| "num_less x NaN = False"
| "num_less (Finite p) (Finite q) = (p < q)"
| "num_less (Finite p) PosInfinity = True"
| "num_less (Finite p) NegInfinity = False"
| "num_less PosInfinity y = False"
| "num_less NegInfinity NegInfinity = False"
| "num_less NegInfinity y = True"

definition num_le :: "jsnum \<Rightarrow> jsnum \<Rightarrow> bool" where
  "num_le x y = (x \<noteq> NaN \<and> y \<noteq> NaN \<and> \<not> num_less y x)"

text \<open>Strict equality \<open>===\<close> on numbers.\<close>

definition num_eq :: "jsnum \<Rightarrow> jsnum \<Rightarrow> bool" where
  "num_eq x y = (x \<noteq> NaN \<and> x = y)"

text \<open>Decimal digits of a natural number, most significant first.\<close>

fun digits :: "nat \<Rightarrow> jsstring" where
  "digits n = (if n < 10 then [of_nat (48 + n)] else digits (n div 10) @ [of_nat (48 + n mod 10)])"

declare digits.simps [simp del]

definition intToString :: "int \<Rightarrow> jsstring" where
  "intToString i = (if i < 0 then js ''-'' @ digits (nat (- i)) else digits (nat i))"

text \<open>
  \<open>Number::toString\<close> prints the shortest digits that read back as the same double. For
  an integer of magnitude up to \<open>2^53\<close> these are its decimal digits; every other
  finite value, a fraction or a larger integer, prints as the host renders it.
\<close>

definition numberToString :: "host \<Rightarrow> jsnum \<Rightarrow> jsstring" where
  "numberToString h x =
     (case x of
        NaN \<Rightarrow> js ''NaN''
      | PosInfinity \<Rightarrow> js ''Infinity''
      | NegInfinity \<Rightarrow> js ''-Infinity''
      | Finite q \<Rightarrow>
          if of_int \<lfloor>q\<rfloor> = q \<and> \<bar>q\<bar> \<le> 2 ^ 53 then intToString \<lfloor>q\<rfloor>
          else fractionToString h q)"

text \<open>
  A run-time value as the field set and the buyer object hold it. TypeScript's types are
  erased at run time, so a string-typed property may be \<open>undefined\<close>.
\<close>

datatype jsvalue = Undefined | Str jsstring | Num jsnum

definition ofOption :: "jsstring option \<Rightarrow> jsvalue" where
  "ofOption v = (case v of None \<Rightarrow> Undefined | Some s \<Rightarrow> Str s)"

text \<open>\<open>String(v)\<close> and the conversion inside a template literal.\<close>

definition toStr :: "host \<Rightarrow> jsvalue \<Rightarrow> jsstring" where
  "toStr h v = (case v of Undefined \<Rightarrow> js ''undefined'' | Str s \<Rightarrow> s | Num n \<Rightarrow> numberToString h n)"

text \<open>The number denoted by an integer: exact up to \<open>2^53\<close>, rounded by the host beyond.\<close>

definition numberOfInt :: "host \<Rightarrow> int \<Rightarrow> jsnum" where
  "numberOfInt h i = (if \<bar>i\<bar> \<le> 2 ^ 53 then Finite (of_int i) else integerToNumber h i)"

definition isDigit :: "code_unit \<Rightarrow> bool" where
  "isDigit c \<longleftrightarrow> 0x30 \<le> c \<and> c \<le> 0x39"

definition digitsValue :: "jsstring \<Rightarrow> nat" where
  "digitsValue z = foldl (\<lambda>acc c. 10 * acc + (unat c - 48)) 0 z"

text \<open>
  \<open>parseInt(s, 10)\<close>: leading white space is skipped, one sign is read, then the longest
  run of decimal digits; no digit gives \<open>NaN\<close>.
\<close>

definition parseInt10 :: "host \<Rightarrow> jsstring \<Rightarrow> jsnum" where
  "parseInt10 h s =
     (let t = trimStart s;
          negative = (t \<noteq> [] \<and> hd t = 0x2D);
          u = (if t \<noteq> [] \<and> (hd t = 0x2B \<or> hd t = 0x2D) then tl t else t);
          z = takeWhile isDigit u
      in if z = [] then NaN
         else numberOfInt h ((if negative then - 1 else 1) * int (digitsValue z)))"


section \<open>Encodings of the host: UTF-8 and base64\<close>

definition utf8_unit :: "code_unit \<Rightarrow> byte list" where
  "utf8_unit c =
     (let n = unat c in
      if n < 0x80 then [of_nat n]
      else if n < 0x800 then [of_nat (0xC0 + n div 64), of_nat (0x80 + n mod 64)]
      else if 0xD800 \<le> n \<and> n \<le> 0xDFFF then [0xEF, 0xBF, 0xBD]
      else [of_nat (0xE0 + n div 4096), of_nat (0x80 + (n div 64) mod 64), of_nat (0x80 + n mod 64)])"

definition utf8_pair :: "code_unit \<Rightarrow> code_unit \<Rightarrow> byte list" where
  "utf8_pair hi lo =
     (let n = 0x10000 + (unat hi - 0xD800) * 0x400 + (unat lo - 0xDC00) in
      [of_nat (0xF0 + n div 262144), of_nat (0x80 + (n div 4096) mod 64),
       of_nat (0x80 + (n div 64) mod 64), of_nat (0x80 + n mod 64)])"

text \<open>
  \<open>Buffer.from(s, 'utf8')\<close>, also the encoding of string arguments of the HMAC: a
  surrogate pair is one four-byte sequence, a lone surrogate is U+FFFD.
\<close>

fun utf8 :: "jsstring \<Rightarrow> byte list" where
  "utf8 [] = []"
| "utf8 [c] = utf8_unit c"
| "utf8 (c # d # ds) =
     (if 0xD800 \<le> c \<and> c \<le> 0xDBFF \<and> 0xDC00 \<le> d \<and> d \<le> 0xDFFF
      then utf8_pair c d @ utf8 ds
      else utf8_unit c @ utf8 (d # ds))"

definition base64Alphabet :: jsstring where
  "base64Alphabet = js ''ABCDEFGHIJKLMNOPQRSTUVWXYZabcdefghijklmnopqrstuvwxyz0123456789+/''"

definition base64Char :: "nat \<Rightarrow> code_unit" where
  "base64Char n = base64Alphabet ! (n mod 64)"

text \<open>\<open>digest('base64')\<close>: standard base64 with padding.\<close>

fun base64 :: "byte list \<Rightarrow> jsstring" where
  "base64 [] = []"
| "base64 [a] =
     [base64Char (unat a div 4), base64Char ((unat a mod 4) * 16), 0x3D, 0x3D]"
| "base64 [a, b] =
     [base64Char (unat a div 4), base64Char ((unat a mod 4) * 16 + unat b div 16),
      base64Char ((unat b mod 16) * 4), 0x3D]"
| "base64 (a # b # c # rest) =
     [base64Char (unat a div 4), base64Char ((unat a mod 4) * 16 + unat b div 16),
      base64Char ((unat b mod 16) * 4 + unat c div 64), base64Char (unat c mod 64)]
     @ base64 rest"


section \<open>The signature engine (core/signature.ts)\<close>

definition generateSignature :: "host \<Rightarrow> jsstring \<Rightarrow> jsstring \<Rightarrow> jsstring" where
  "generateSignature h secret data = base64 (hmacSha256 h (utf8 secret) (utf8 data))"

datatype node_error = RangeError

text \<open>\<open>crypto.timingSafeEqual\<close> throws when the two buffers differ in length.\<close>

definition timingSafeEqual :: "byte list \<Rightarrow> byte list \<Rightarrow> node_error + bool" where
  "timingSafeEqual a b = (if length a \<noteq> length b then Inl RangeError else Inr (a = b))"

text \<open>The body of the \<open>try\<close> block of \<open>verifySignature\<close>.\<close>

definition verifySignature_try :: "jsstring \<Rightarrow> jsstring \<Rightarrow> node_error + bool" where
  "verifySignature_try expectedSignature signature =
     (let expectedBuffer = utf8 expectedSignature;
          signatureBuffer = utf8 signature
      in if length expectedBuffer \<noteq> length signatureBuffer then Inr False
         else timingSafeEqual expectedBuffer signatureBuffer)"

text \<open>\<open>verifySignature\<close>: the \<open>catch\<close> clause turns every exception of the block into \<open>false\<close>.\<close>

definition verifySignature :: "host \<Rightarrow> jsstring \<Rightarrow> jsstring \<Rightarrow> jsstring \<Rightarrow> bool" where
  "verifySignature h secret data signature =
     (let expectedSignature = generateSignature h secret data
      in case verifySignature_try expectedSignature signature of
           Inl e \<Rightarrow> False
         | Inr b \<Rightarrow> b)"

definition generatePaymentSignature ::
  "host \<Rightarrow> jsstring \<Rightarrow> jsvalue \<Rightarrow> jsvalue \<Rightarrow> jsvalue \<Rightarrow> jsvalue \<Rightarrow> jsstring" where
  "generatePaymentSignature h secret randomNr orderId amount currency =
     (let data = toStr h randomNr @ toStr h orderId @ toStr h amount @ toStr h currency
      in generateSignature h secret data)"

definition generateCallbackSignature :: "host \<Rightarrow> jsstring \<Rightarrow> jsstring \<Rightarrow> jsstring \<Rightarrow> jsstring" where
  "generateCallbackSignature h secret randomNr orderId =
     (let data = randomNr @ orderId in generateSignature h secret data)"

section \<open>Errors (errors/*.ts)\<close>

text \<open>A value of an error's detail payload (\<open>Record<string, unknown>\<close>, in property order).\<close>

datatype detail = DUndefined | DString jsstring | DNumber jsnum | DStrings "jsstring list"

record ShopierError =
  err_name :: jsstring
  err_message :: jsstring
  err_code :: jsstring
  err_details :: "(jsstring \<times> detail) list option"

definition newShopierError ::
  "jsstring \<Rightarrow> jsstring \<Rightarrow> (jsstring \<times> detail) list option \<Rightarrow> ShopierError" where
  "newShopierError message code details =
     \<lparr>err_name = js ''ShopierError'', err_message = message, err_code = code,
      err_details = details\<rparr>"

definition InvalidApiKeyError ::
  "jsstring \<Rightarrow> (jsstring \<times> detail) list option \<Rightarrow> ShopierError" where
  "InvalidApiKeyError message details =
     (newShopierError message (js ''INVALID_API_KEY'') details)\<lparr>err_name := js ''InvalidApiKeyError''\<rparr>"

definition InvalidApiSecretError ::
  "jsstring \<Rightarrow> (jsstring \<times> detail) list option \<Rightarrow> ShopierError" where
  "InvalidApiSecretError message details =
     (newShopierError message (js ''INVALID_API_SECRET'') details)\<lparr>err_name := js ''InvalidApiSecretError''\<rparr>"

definition ValidationError ::
  "jsstring \<Rightarrow> (jsstring \<times> detail) list option \<Rightarrow> ShopierError" where
  "ValidationError message details =
     (newShopierError message (js ''VALIDATION_ERROR'') details)\<lparr>err_name := js ''ValidationError''\<rparr>"

definition SignatureValidationError ::
  "jsstring \<Rightarrow> (jsstring \<times> detail) list option \<Rightarrow> ShopierError" where
  "SignatureValidationError message details =
     (newShopierError message (js ''SIGNATURE_VALIDATION_ERROR'') details)
       \<lparr>err_name := js ''SignatureValidationError''\<rparr>"

definition SENSITIVE_FIELDS :: "jsstring list" where
  "SENSITIVE_FIELDS =
     [js ''email'', js ''phone'', js ''value'', js ''password'', js ''secret'', js ''token'',
      js ''apiSecret'', js ''apiKey'']"

definition REDACTED :: jsstring where
  "REDACTED = js ''[REDACTED]''"

definition asciiLower :: "code_unit \<Rightarrow> code_unit" where
  "asciiLower c = (if 0x41 \<le> c \<and> c \<le> 0x5A then c + 0x20 else c)"

text \<open>\<open>String.prototype.toLowerCase\<close>: letter by letter on ASCII, the host's mapping otherwise.\<close>

definition toLowerCase :: "host \<Rightarrow> jsstring \<Rightarrow> jsstring" where
  "toLowerCase h s =
     (if list_all (\<lambda>c. c < 0x80) s then map asciiLower s else lowerCaseMapping h s)"

definition isSensitive :: "host \<Rightarrow> jsstring \<Rightarrow> bool" where
  "isSensitive h key =
     list_ex (\<lambda>field. includes_str (toLowerCase h key) (toLowerCase h field)) SENSITIVE_FIELDS"

definition getSafeDetails :: "host \<Rightarrow> ShopierError \<Rightarrow> (jsstring \<times> detail) list option" where
  "getSafeDetails h e =
     (case err_details e of
        None \<Rightarrow> None
      | Some ds \<Rightarrow>
          Some (map (\<lambda>(key, v). if isSensitive h key then (key, DString REDACTED) else (key, v)) ds))"

record SafeJSON =
  json_name :: jsstring
  json_message :: jsstring
  json_code :: jsstring
  json_details :: "(jsstring \<times> detail) list option"

definition toSafeJSON :: "host \<Rightarrow> ShopierError \<Rightarrow> SafeJSON" where
  "toSafeJSON h e =
     \<lparr>json_name = err_name e, json_message = err_message e, json_code = err_code e,
      json_details = getSafeDetails h e\<rparr>"


section \<open>Enumerations (enums/*.ts)\<close>

datatype Currency = TL | USD | EUR
datatype Language = TR | EN
datatype ProductType = REAL_OBJECT | DOWNLOADABLE_VIRTUAL | DEFAULT
datatype PlatformType = IN_FRAME | NOT_IN_FRAME
datatype WebsiteIndex = SITE_1 | SITE_2 | SITE_3 | SITE_4 | SITE_5

fun CurrencyCode :: "Currency \<Rightarrow> int" where
  "CurrencyCode TL = 0"
| "CurrencyCode USD = 1"
| "CurrencyCode EUR = 2"

fun LanguageCode :: "Language \<Rightarrow> int" where
  "LanguageCode TR = 0"
| "LanguageCode EN = 1"

fun ProductTypeCode :: "ProductType \<Rightarrow> int" where
  "ProductTypeCode REAL_OBJECT = 0"
| "ProductTypeCode DOWNLOADABLE_VIRTUAL = 1"
| "ProductTypeCode DEFAULT = 2"

fun PlatformTypeCode :: "PlatformType \<Rightarrow> int" where
  "PlatformTypeCode IN_FRAME = 0"
| "PlatformTypeCode NOT_IN_FRAME = 1"

fun WebsiteIndexCode :: "WebsiteIndex \<Rightarrow> int" where
  "WebsiteIndexCode SITE_1 = 1"
| "WebsiteIndexCode SITE_2 = 2"
| "WebsiteIndexCode SITE_3 = 3"
| "WebsiteIndexCode SITE_4 = 4"
| "WebsiteIndexCode SITE_5 = 5"

text \<open>An enumeration member is its number at run time.\<close>

definition enumValue :: "int \<Rightarrow> jsvalue" where
  "enumValue i = Num (Finite (of_int i))"


section \<open>Configuration (core/config.ts)\<close>

record ShopierConfig =
  cfg_apiKey :: "jsstring option"
  cfg_apiSecret :: "jsstring option"
  cfg_language :: "Language option"
  cfg_moduleVersion :: "jsstring option"
  cfg_websiteIndex :: "WebsiteIndex option"

record ResolvedConfig =
  apiKey :: jsstring
  apiSecret :: jsstring
  language :: Language
  moduleVersion :: jsstring
  websiteIndex :: WebsiteIndex

definition DEFAULT_language :: Language where
  "DEFAULT_language = TR"

definition DEFAULT_moduleVersion :: jsstring where
  "DEFAULT_moduleVersion = js ''1.0.4''"

definition DEFAULT_websiteIndex :: WebsiteIndex where
  "DEFAULT_websiteIndex = SITE_1"

definition ENV_API_KEY :: jsstring where
  "ENV_API_KEY = js ''SHOPIER_API_KEY''"

definition ENV_API_SECRET :: jsstring where
  "ENV_API_SECRET = js ''SHOPIER_API_SECRET''"

text \<open>
  \<open>resolveApiKey\<close>: \<open>configValue && configValue.trim() !== ''\<close>, then the same test on the
  environment variable, else \<open>undefined\<close>.
\<close>

definition resolveApiKey :: "host \<Rightarrow> jsstring option \<Rightarrow> jsstring option" where
  "resolveApiKey h configValue =
     (let envValue = processEnv h ENV_API_KEY;
          fromEnv = (case envValue of
                       Some e \<Rightarrow> if e \<noteq> [] \<and> trim e \<noteq> [] then Some (trim e) else None
                     | None \<Rightarrow> None)
      in case configValue of
           Some v \<Rightarrow> if v \<noteq> [] \<and> trim v \<noteq> [] then Some (trim v) else fromEnv
         | None \<Rightarrow> fromEnv)"

definition resolveApiSecret :: "host \<Rightarrow> jsstring option \<Rightarrow> jsstring option" where
  "resolveApiSecret h configValue =
     (let envValue = processEnv h ENV_API_SECRET;
          fromEnv = (case envValue of
                       Some e \<Rightarrow> if e \<noteq> [] \<and> trim e \<noteq> [] then Some (trim e) else None
                     | None \<Rightarrow> None)
      in case configValue of
           Some v \<Rightarrow> if v \<noteq> [] \<and> trim v \<noteq> [] then Some (trim v) else fromEnv
         | None \<Rightarrow> fromEnv)"

definition emptyConfig :: ShopierConfig where
  "emptyConfig =
     \<lparr>cfg_apiKey = None, cfg_apiSecret = None, cfg_language = None, cfg_moduleVersion = None,
      cfg_websiteIndex = None\<rparr>"

text \<open>\<open>resolveConfig(config = {})\<close>; \<open>Inl\<close> is the error thrown.\<close>

definition resolveConfig :: "host \<Rightarrow> ShopierConfig option \<Rightarrow> ShopierError + ResolvedConfig" where
  "resolveConfig h config_arg =
     (let config = (case config_arg of None \<Rightarrow> emptyConfig | Some c \<Rightarrow> c);
          apiKey' = resolveApiKey h (cfg_apiKey config);
          apiSecret' = resolveApiSecret h (cfg_apiSecret config)
      in case apiKey' of
           None \<Rightarrow> Inl (InvalidApiKeyError (js ''API key is missing or empty'') None)
         | Some k \<Rightarrow>
             if k = [] then Inl (InvalidApiKeyError (js ''API key is missing or empty'') None)
             else (case apiSecret' of
                     None \<Rightarrow> Inl (InvalidApiSecretError (js ''API secret is missing or empty'') None)
                   | Some s \<Rightarrow>
                       if s = [] then Inl (InvalidApiSecretError (js ''API secret is missing or empty'') None)
                       else Inr \<lparr>apiKey = k, apiSecret = s,
                                 language = (case cfg_language config of Some l \<Rightarrow> l | None \<Rightarrow> DEFAULT_language),
                                 moduleVersion = (case cfg_moduleVersion config of Some m \<Rightarrow> m | None \<Rightarrow> DEFAULT_moduleVersion),
                                 websiteIndex = (case cfg_websiteIndex config of Some w \<Rightarrow> w | None \<Rightarrow> DEFAULT_websiteIndex)\<rparr>))"

subsection \<open>ConfigManager\<close>

text \<open>
  The manager's state is its private \<open>config\<close>. A method that can throw returns the error,
  if any, together with the state the object is left in.
\<close>

definition getApiKey :: "ResolvedConfig \<Rightarrow> jsstring" where
  "getApiKey config = apiKey config"

definition getApiSecret :: "ResolvedConfig \<Rightarrow> jsstring" where
  "getApiSecret config = apiSecret config"

definition newConfigManager :: "host \<Rightarrow> ShopierConfig option \<Rightarrow> ShopierError + ResolvedConfig" where
  "newConfigManager h config_arg = resolveConfig h config_arg"

text \<open>Sequencing of statements: a statement that threw ends the method.\<close>

definition andThen ::
  "ShopierError option \<times> ResolvedConfig \<Rightarrow>
   (ResolvedConfig \<Rightarrow> ShopierError option \<times> ResolvedConfig) \<Rightarrow>
   ShopierError option \<times> ResolvedConfig" where
  "andThen r next = (case r of (Some e, c) \<Rightarrow> (Some e, c) | (None, c) \<Rightarrow> next c)"

definition updateConfig ::
  "host \<Rightarrow> ShopierConfig \<Rightarrow> ResolvedConfig \<Rightarrow> ShopierError option \<times> ResolvedConfig" where
  "updateConfig h updates config =
     andThen (andThen (andThen (andThen
       (if cfg_apiKey updates \<noteq> None then
          (let apiKey' = resolveApiKey h (cfg_apiKey updates)
           in case apiKey' of
                None \<Rightarrow> (Some (InvalidApiKeyError (js ''API key is missing or empty'') None), config)
              | Some k \<Rightarrow>
                  if k = [] then (Some (InvalidApiKeyError (js ''API key is missing or empty'') None), config)
                  else (None, config\<lparr>apiKey := k\<rparr>))
        else (None, config))
       (\<lambda>config.
          if cfg_apiSecret updates \<noteq> None then
            (let apiSecret' = resolveApiSecret h (cfg_apiSecret updates)
             in case apiSecret' of
                  None \<Rightarrow> (Some (InvalidApiSecretError (js ''API secret is missing or empty'') None), config)
                | Some s \<Rightarrow>
                    if s = [] then (Some (InvalidApiSecretError (js ''API secret is missing or empty'') None), config)
                    else (None, config\<lparr>apiSecret := s\<rparr>))
          else (None, config)))
       (\<lambda>config. case cfg_language updates of Some l \<Rightarrow> (None, config\<lparr>language := l\<rparr>) | None \<Rightarrow> (None, config)))
       (\<lambda>config. case cfg_moduleVersion updates of Some m \<Rightarrow> (None, config\<lparr>moduleVersion := m\<rparr>) | None \<Rightarrow> (None, config)))
       (\<lambda>config. case cfg_websiteIndex updates of Some w \<Rightarrow> (None, config\<lparr>websiteIndex := w\<rparr>) | None \<Rightarrow> (None, config))"


section \<open>Regular expressions of the validator\<close>

text \<open>
  Both patterns of the validator are anchored sequences of quantified character classes.
  An item is a class with a least and an optional greatest number of repetitions; the
  matcher tries every split, as the backtracking engine does.
\<close>

type_synonym regex_item = "(code_unit \<Rightarrow> bool) \<times> nat \<times> nat option"

fun regex_test :: "regex_item list \<Rightarrow> jsstring \<Rightarrow> bool" where
  "regex_test [] s = (s = [])"
| "regex_test ((cls, lo, hi) # items) s =
     ((lo = 0 \<and> regex_test items s) \<or>
      (case s of
         [] \<Rightarrow> False
       | c # cs \<Rightarrow>
           hi \<noteq> Some 0 \<and> cls c \<and>
           regex_test ((cls, lo - 1, map_option (\<lambda>n. n - 1) hi) # items) cs))"

definition one_or_more :: "(code_unit \<Rightarrow> bool) \<Rightarrow> regex_item" where
  "one_or_more cls = (cls, 1, None)"

definition exactly_one :: "(code_unit \<Rightarrow> bool) \<Rightarrow> regex_item" where
  "exactly_one cls = (cls, 1, Some 1)"

text \<open>\<open>/^[^\s@]+@[^\s@]+\.[^\s@]+$/\<close>\<close>

definition emailRegex :: "regex_item list" where
  "emailRegex =
     [one_or_more (\<lambda>c. \<not> (isWhiteSpace c \<or> c = 0x40)),
      exactly_one (\<lambda>c. c = 0x40),
      one_or_more (\<lambda>c. \<not> (isWhiteSpace c \<or> c = 0x40)),
      exactly_one (\<lambda>c. c = 0x2E),
      one_or_more (\<lambda>c. \<not> (isWhiteSpace c \<or> c = 0x40))]"

text \<open>\<open>/^\d{7,15}$/\<close>\<close>

definition phoneRegex :: "regex_item list" where
  "phoneRegex = [(isDigit, 7, Some 15)]"


section \<open>Input types (types/*.ts)\<close>

text \<open>
  The six required properties of a buyer are strings by type, but \<open>validateBuyer\<close> tests
  them for \<open>undefined\<close> and \<open>null\<close>: \<open>None\<close> is either.
\<close>

record BuyerInfo =
  b_id :: "jsstring option"
  b_platformOrderId :: "jsstring option"
  b_productName :: "jsstring option"
  b_productType :: "ProductType option"
  b_firstName :: "jsstring option"
  b_lastName :: "jsstring option"
  b_email :: "jsstring option"
  b_phone :: "jsstring option"
  b_accountAge :: "jsnum option"

record Address =
  address :: jsstring
  city :: jsstring
  country :: jsstring
  postcode :: jsstring

record PaymentOptions =
  o_amount :: jsnum
  o_buyer :: BuyerInfo
  o_billing :: "Address option"
  o_shipping :: "Address option"
  o_currency :: "Currency option"
  o_maxInstallment :: "jsnum option"
  o_language :: "Language option"
  o_productType :: "ProductType option"
  o_platformType :: "PlatformType option"
  o_websiteIndex :: "WebsiteIndex option"
  o_isInFrame :: "bool option"
  o_randomNr :: "jsnum option"

record FormData =
  API_key :: jsvalue
  website_index :: jsvalue
  platform_order_id :: jsvalue
  product_name :: jsvalue
  product_type :: jsvalue
  buyer_name :: jsvalue
  buyer_surname :: jsvalue
  buyer_email :: jsvalue
  buyer_account_age :: jsvalue
  buyer_id_nr :: jsvalue
  buyer_phone :: jsvalue
  billing_address :: jsvalue
  billing_city :: jsvalue
  billing_country :: jsvalue
  billing_postcode :: jsvalue
  shipping_address :: jsvalue
  shipping_city :: jsvalue
  shipping_country :: jsvalue
  shipping_postcode :: jsvalue
  total_order_value :: jsvalue
  currency :: jsvalue
  platform :: jsvalue
  is_in_frame :: jsvalue
  current_language :: jsvalue
  modul_version :: jsvalue
  random_nr :: jsvalue
  signature :: jsvalue

text \<open>\<open>Object.entries(formData)\<close>: the properties in the order the object literal lists them.\<close>

definition entries :: "FormData \<Rightarrow> (jsstring \<times> jsvalue) list" where
  "entries fd =
     [(js ''API_key'', API_key fd),
      (js ''website_index'', website_index fd),
      (js ''platform_order_id'', platform_order_id fd),
      (js ''product_name'', product_name fd),
      (js ''product_type'', product_type fd),
      (js ''buyer_name'', buyer_name fd),
      (js ''buyer_surname'', buyer_surname fd),
      (js ''buyer_email'', buyer_email fd),
      (js ''buyer_account_age'', buyer_account_age fd),
      (js ''buyer_id_nr'', buyer_id_nr fd),
      (js ''buyer_phone'', buyer_phone fd),
      (js ''billing_address'', billing_address fd),
      (js ''billing_city'', billing_city fd),
      (js ''billing_country'', billing_country fd),
      (js ''billing_postcode'', billing_postcode fd),
      (js ''shipping_address'', shipping_address fd),
      (js ''shipping_city'', shipping_city fd),
      (js ''shipping_country'', shipping_country fd),
      (js ''shipping_postcode'', shipping_postcode fd),
      (js ''total_order_value'', total_order_value fd),
      (js ''currency'', currency fd),
      (js ''platform'', platform fd),
      (js ''is_in_frame'', is_in_frame fd),
      (js ''current_language'', current_language fd),
      (js ''modul_version'', modul_version fd),
      (js ''random_nr'', random_nr fd),
      (js ''signature'', signature fd)]"

record FormDataResult =
  fdr_formData :: FormData
  fdr_actionUrl :: jsstring

record PaymentResult =
  html :: jsstring
  formData :: FormData
  actionUrl :: jsstring
  hiddenInputs :: jsstring

record CallbackBody =
  cb_random_nr :: jsstring
  cb_platform_order_id :: jsstring
  cb_payment_id :: jsstring
  cb_installment :: jsstring
  cb_status :: jsstring
  cb_signature :: jsstring

record CallbackResult =
  success :: bool
  orderId :: jsstring
  paymentId :: jsstring
  installment :: jsnum
  platformOrderId :: jsstring
  status :: jsstring


section \<open>The validator (core/validator.ts)\<close>

definition validateEmail :: "jsstring option \<Rightarrow> bool" where
  "validateEmail email =
     (case email of
        None \<Rightarrow> False
      | Some e \<Rightarrow> if e = [] then False else regex_test emailRegex (trim e))"

text \<open>\<open>phone.replace(/[\s\-\(\)\+]/g, '')\<close> deletes every code unit of the class.\<close>

definition validatePhone :: "jsstring option \<Rightarrow> bool" where
  "validatePhone phone =
     (case phone of
        None \<Rightarrow> False
      | Some p \<Rightarrow>
          if p = [] then False
          else (let digitsOnly =
                      filter (\<lambda>c. \<not> (isWhiteSpace c \<or> c = 0x2D \<or> c = 0x28 \<or> c = 0x29 \<or> c = 0x2B)) p
                in regex_test phoneRegex digitsOnly))"

definition requiredFields :: "(jsstring \<times> (BuyerInfo \<Rightarrow> jsstring option)) list" where
  "requiredFields =
     [(js ''id'', b_id), (js ''firstName'', b_firstName), (js ''lastName'', b_lastName),
      (js ''email'', b_email), (js ''phone'', b_phone), (js ''productName'', b_productName)]"

text \<open>The test of the loop body: \<open>undefined\<close>, \<open>null\<close>, or a string that trims to nothing.\<close>

definition isMissing :: "jsstring option \<Rightarrow> bool" where
  "isMissing v = (case v of None \<Rightarrow> True | Some s \<Rightarrow> trim s = [])"

definition missingFieldsOf :: "BuyerInfo \<Rightarrow> jsstring list" where
  "missingFieldsOf buyer =
     map fst (filter (\<lambda>(field, get). isMissing (get buyer)) requiredFields)"

definition detailOf :: "jsstring option \<Rightarrow> detail" where
  "detailOf v = (case v of None \<Rightarrow> DUndefined | Some s \<Rightarrow> DString s)"

definition validateBuyer :: "BuyerInfo \<Rightarrow> ShopierError + unit" where
  "validateBuyer buyer =
     (let missingFields = missingFieldsOf buyer
      in if length missingFields > 0 then
           Inl (ValidationError
                  (js ''Missing required buyer fields: '' @ join (js '', '') missingFields)
                  (Some [(js ''missingFields'', DStrings missingFields)]))
         else if \<not> validateEmail (b_email buyer) then
           Inl (ValidationError (js ''Invalid email format'')
                  (Some [(js ''field'', DString (js ''email'')), (js ''value'', detailOf (b_email buyer))]))
         else if \<not> validatePhone (b_phone buyer) then
           Inl (ValidationError (js ''Invalid phone number format'')
                  (Some [(js ''field'', DString (js ''phone'')), (js ''value'', detailOf (b_phone buyer))]))
         else Inr ())"

definition validateAmount :: "jsnum \<Rightarrow> ShopierError + unit" where
  "validateAmount amount =
     (if \<not> isFinite amount \<or> num_le amount (Finite 0) then
        Inl (ValidationError (js ''Amount must be a valid positive number'')
               (Some [(js ''field'', DString (js ''amount'')), (js ''value'', DNumber amount)]))
      else Inr ())"

definition validateInstallment :: "jsnum \<Rightarrow> ShopierError + unit" where
  "validateInstallment n =
     (if \<not> isInteger n \<or> num_less n (Finite 0) \<or> num_less (Finite 12) n then
        Inl (ValidationError (js ''Installment must be an integer between 0 and 12'')
               (Some [(js ''field'', DString (js ''installment'')), (js ''value'', DNumber n)]))
      else Inr ())"


section \<open>Renderers (renderers/*.ts)\<close>

definition renderHiddenInputs :: "host \<Rightarrow> FormData \<Rightarrow> jsstring" where
  \<open>renderHiddenInputs h fd =
     join (js [CHR 0x0A])
       (map (\<lambda>(key, v).
               let escapedKey = escapeHtml key;
                   escapedValue = escapeHtml (toStr h v)
               in js ''<input type="hidden" name="'' @ escapedKey @ js ''" value="'' @ escapedValue
                  @ js ''" />'')
            (entries fd))\<close>

definition loadingMessage :: "Language \<Rightarrow> jsstring" where
  "loadingMessage lang =
     (if lang = EN then js ''Redirecting to payment page...''
      else [0xD6] @ js ''deme sayfas'' @ [0x131] @ js ''na y'' @ [0xF6] @ js ''nlendiriliyorsunuz...'')"

text \<open>The template of the auto-submit page, line by line.\<close>

definition renderAutoSubmitHTML :: "host \<Rightarrow> FormData \<Rightarrow> jsstring \<Rightarrow> Language \<Rightarrow> jsstring" where
  \<open>renderAutoSubmitHTML h fd actionUrl' lang =
     (let escapedActionUrl = escapeHtml actionUrl';
          hiddenInputs' = renderHiddenInputs h fd
      in join (js [CHR 0x0A])
           [js ''<!DOCTYPE html>'',
            js ''<html>'',
            js ''<head>'',
            js ''  <meta charset="UTF-8">'',
            js ''  <meta name="viewport" content="width=device-width, initial-scale=1.0">'',
            js ''  <title>Shopier Payment</title>'',
            js ''  <style>'',
            js ''    body {'',
            js ''      font-family: -apple-system, BlinkMacSystemFont, 'Segoe UI', Roboto, sans-serif;'',
            js ''      display: flex;'',
            js ''      justify-content: center;'',
            js ''      align-items: center;'',
            js ''      height: 100vh;'',
            js ''      margin: 0;'',
            js ''      background-color: #f5f5f5;'',
            js ''    }'',
            js ''    .loading {'',
            js ''      text-align: center;'',
            js ''      color: #333;'',
            js ''    }'',
            js ''    .spinner {'',
            js ''      border: 3px solid #f3f3f3;'',
            js ''      border-top: 3px solid #3498db;'',
            js ''      border-radius: 50%;'',
            js ''      width: 40px;'',
            js ''      height: 40px;'',
            js ''      animation: spin 1s linear infinite;'',
            js ''      margin: 0 auto 20px;'',
            js ''    }'',
            js ''    @keyframes spin {'',
            js ''      0% { transform: rotate(0deg); }'',
            js ''      100% { transform: rotate(360deg); }'',
            js ''    }'',
            js ''  </style>'',
            js ''</head>'',
            js ''<body>'',
            js ''  <div class="loading">'',
            js ''    <div class="spinner"></div>'',
            js ''    <p>'' @ escapeHtml (loadingMessage lang) @ js ''</p>'',
            js ''  </div>'',
            js ''  <form id="shopier-form" action="'' @ escapedActionUrl @ js ''" method="POST">'',
            hiddenInputs',
            js ''  </form>'',
            js ''  <script>'',
            js ''    document.getElementById('shopier-form').submit();'',
            js ''  </script>'',
            js ''</body>'',
            js ''</html>''])\<close>

definition SHOPIER_ACTION_URL :: jsstring where
  "SHOPIER_ACTION_URL = js ''https://www.shopier.com/ShowProduct/api_pay4.php''"

definition getFormDataObject :: "FormData \<Rightarrow> jsstring option \<Rightarrow> FormDataResult" where
  "getFormDataObject fd actionUrl_arg =
     \<lparr>fdr_formData = fd,
      fdr_actionUrl = (case actionUrl_arg of None \<Rightarrow> SHOPIER_ACTION_URL | Some u \<Rightarrow> u)\<rparr>"


section \<open>The payment-request builder (core/shopier.ts)\<close>

definition MIN_RANDOM :: int where
  "MIN_RANDOM = 100000"

definition MAX_RANDOM :: int where
  "MAX_RANDOM = 999999"

definition generateRandomNumber :: "host \<Rightarrow> int" where
  "generateRandomNumber h = randomInt h MIN_RANDOM (MAX_RANDOM + 1)"

definition emptyAddress :: Address where
  "emptyAddress = \<lparr>address = [], city = [], country = [], postcode = []\<rparr>"

text \<open>The order id, \<open>buyer.platformOrderId || buyer.id\<close>: an empty override counts as none.\<close>

definition resolveOrderId :: "BuyerInfo \<Rightarrow> jsvalue" where
  "resolveOrderId buyer =
     (case b_platformOrderId buyer of
        Some p \<Rightarrow> if p \<noteq> [] then Str p else ofOption (b_id buyer)
      | None \<Rightarrow> ofOption (b_id buyer))"

text \<open>\<open>buildFormData\<close>: the three validations in order, then the field set.\<close>

definition buildFormData :: "host \<Rightarrow> ResolvedConfig \<Rightarrow> PaymentOptions \<Rightarrow> ShopierError + FormData" where
  "buildFormData h config options =
     (let amount = o_amount options;
          buyer = o_buyer options;
          billing = o_billing options;
          shipping = o_shipping options;
          currency' = (case o_currency options of Some c \<Rightarrow> c | None \<Rightarrow> TL);
          maxInstallment = (case o_maxInstallment options of Some m \<Rightarrow> m | None \<Rightarrow> Finite 0);
          language' = (case o_language options of Some l \<Rightarrow> l | None \<Rightarrow> language config);
          productType = (case o_productType options of Some p \<Rightarrow> p | None \<Rightarrow> REAL_OBJECT);
          platformType = (case o_platformType options of Some p \<Rightarrow> p | None \<Rightarrow> NOT_IN_FRAME);
          websiteIndex' = (case o_websiteIndex options of Some w \<Rightarrow> w | None \<Rightarrow> websiteIndex config);
          isInFrame = (case o_isInFrame options of Some b \<Rightarrow> b | None \<Rightarrow> False);
          randomNrOverride = o_randomNr options
      in case validateAmount amount of
           Inl e \<Rightarrow> Inl e
         | Inr _ \<Rightarrow>
        (case validateBuyer buyer of
           Inl e \<Rightarrow> Inl e
         | Inr _ \<Rightarrow>
        (case (if \<not> num_eq maxInstallment (Finite 0) then validateInstallment maxInstallment else Inr ()) of
           Inl e \<Rightarrow> Inl e
         | Inr _ \<Rightarrow>
        (let randomNr = (case randomNrOverride of
                           Some n \<Rightarrow> Num n
                         | None \<Rightarrow> Num (Finite (of_int (generateRandomNumber h))));
             orderId = resolveOrderId buyer;
             signature' = generatePaymentSignature h (apiSecret config) randomNr orderId
                            (Num amount) (enumValue (CurrencyCode currency'));
             finalProductType = (case b_productType buyer of Some p \<Rightarrow> p | None \<Rightarrow> productType);
             billingAddr = (case billing of Some a \<Rightarrow> a | None \<Rightarrow> emptyAddress);
             shippingAddr = (case shipping of
                               Some a \<Rightarrow> a
                             | None \<Rightarrow> (case billing of Some a \<Rightarrow> a | None \<Rightarrow> emptyAddress))
         in Inr \<lparr>API_key = Str (apiKey config),
                 website_index = enumValue (WebsiteIndexCode websiteIndex'),
                 platform_order_id = orderId,
                 product_name = ofOption (b_productName buyer),
                 product_type = enumValue (ProductTypeCode finalProductType),
                 buyer_name = ofOption (b_firstName buyer),
                 buyer_surname = ofOption (b_lastName buyer),
                 buyer_email = ofOption (b_email buyer),
                 buyer_account_age = Num (case b_accountAge buyer of Some a \<Rightarrow> a | None \<Rightarrow> Finite 0),
                 buyer_id_nr = ofOption (b_id buyer),
                 buyer_phone = ofOption (b_phone buyer),
                 billing_address = Str (address billingAddr),
                 billing_city = Str (city billingAddr),
                 billing_country = Str (country billingAddr),
                 billing_postcode = Str (postcode billingAddr),
                 shipping_address = Str (address shippingAddr),
                 shipping_city = Str (city shippingAddr),
                 shipping_country = Str (country shippingAddr),
                 shipping_postcode = Str (postcode shippingAddr),
                 total_order_value = Num amount,
                 currency = enumValue (CurrencyCode currency'),
                 platform = Num maxInstallment,
                 is_in_frame = enumValue (PlatformTypeCode (if isInFrame then IN_FRAME else platformType)),
                 current_language = enumValue (LanguageCode language'),
                 modul_version = Str (moduleVersion config),
                 random_nr = randomNr,
                 signature = Str signature'\<rparr>))))"

definition createPayment :: "host \<Rightarrow> ResolvedConfig \<Rightarrow> PaymentOptions \<Rightarrow> ShopierError + PaymentResult" where
  "createPayment h config options =
     (case buildFormData h config options of
        Inl e \<Rightarrow> Inl e
      | Inr fd \<Rightarrow>
          (let html' = renderAutoSubmitHTML h fd SHOPIER_ACTION_URL
                         (case o_language options of Some l \<Rightarrow> l | None \<Rightarrow> language config);
               hiddenInputs' = renderHiddenInputs h fd
           in Inr \<lparr>html = html', formData = fd, actionUrl = SHOPIER_ACTION_URL,
                   hiddenInputs = hiddenInputs'\<rparr>))"


section \<open>The callback verifier (core/shopier.ts)\<close>

definition verifyCallback :: "host \<Rightarrow> ResolvedConfig \<Rightarrow> CallbackBody \<Rightarrow> ShopierError + CallbackResult" where
  "verifyCallback h config body =
     (let data = cb_random_nr body @ cb_platform_order_id body
      in if \<not> verifySignature h (apiSecret config) data (cb_signature body) then
           Inl (SignatureValidationError (js ''Callback signature verification failed'') None)
         else
           Inr \<lparr>success = (cb_status body = js ''success''),
                 orderId = cb_platform_order_id body,
                 paymentId = cb_payment_id body,
                 installment = (let n = parseInt10 h (cb_installment body)
                                in if n = NaN \<or> n = Finite 0 then Finite 0 else n),
                 platformOrderId = cb_platform_order_id body,
                 status = cb_status body\<rparr>)"


section \<open>The resolution order as the specification words it\<close>

text \<open>
  The specification's rule for one credential: the explicit value, trimmed, if it is not
  blank after trimming; else the environment's value, trimmed, if that is not blank after
  trimming; else absent.
\<close>

definition nonBlank :: "jsstring option \<Rightarrow> bool" where
  "nonBlank v = (case v of None \<Rightarrow> False | Some s \<Rightarrow> trim s \<noteq> [])"

definition resolutionOrder :: "jsstring option \<Rightarrow> jsstring option \<Rightarrow> jsstring option" where
  "resolutionOrder explicit environment =
     (if nonBlank explicit then map_option trim explicit
      else if nonBlank environment then map_option trim environment
      else None)"


section \<open>What an error payload mentions\<close>

text \<open>
  A detail payload mentions a string when the string occurs in one of its keys or in one
  of its string values. An absent payload mentions nothing.
\<close>

definition detailMentions :: "detail \<Rightarrow> jsstring \<Rightarrow> bool" where
  "detailMentions v s =
     (case v of
        DUndefined \<Rightarrow> False
      | DNumber n \<Rightarrow> False
      | DString t \<Rightarrow> includes_str t s
      | DStrings ts \<Rightarrow> list_ex (\<lambda>t. includes_str t s) ts)"

definition payloadMentions :: "(jsstring \<times> detail) list option \<Rightarrow> jsstring \<Rightarrow> bool" where
  "payloadMentions details s =
     (case details of
        None \<Rightarrow> False
      | Some ds \<Rightarrow> list_ex (\<lambda>(key, v). includes_str key s \<or> detailMentions v s) ds)"


section \<open>The scenarios of the specification\<close>

text \<open>
  The configuration that credentials \<open>k\<close> and \<open>s\<close> resolve to, and the notification of the
  end-to-end scenarios, carrying a given signature.
\<close>

definition scenarioConfig :: ResolvedConfig where
  "scenarioConfig =
     \<lparr>apiKey = js ''k'', apiSecret = js ''s'', language = TR, moduleVersion = js ''1.0.4'',
      websiteIndex = SITE_1\<rparr>"

definition scenarioCallback :: "jsstring \<Rightarrow> CallbackBody" where
  "scenarioCallback sig =
     \<lparr>cb_random_nr = js ''123456'', cb_platform_order_id = js ''b1'', cb_payment_id = js ''p1'',
      cb_installment = js ''3'', cb_status = js ''success'', cb_signature = sig\<rparr>"


text \<open>The buyer of end-to-end scenario 1.\<close>

definition scenarioBuyer :: BuyerInfo where
  "scenarioBuyer =
     \<lparr>b_id = Some (js ''b1''), b_platformOrderId = None, b_productName = Some (js ''Plan''),
      b_productType = None, b_firstName = Some (js ''Ahmet''),
      b_lastName = Some (js ''Y'' @ [0x131] @ js ''lmaz''), b_email = Some (js ''a@example.com''),
      b_phone = Some (js ''05551234567''), b_accountAge = None\<rparr>"

section \<open>The missing-field list as the specification words it\<close>

text \<open>
  The names of the required fields that are missing, null or blank after trimming, each
  listed once, in the order \<open>id\<close>, \<open>firstName\<close>, \<open>lastName\<close>, \<open>email\<close>, \<open>phone\<close>,
  \<open>productName\<close>.
\<close>

definition blankFieldNames :: "BuyerInfo \<Rightarrow> jsstring list" where
  "blankFieldNames buyer =
     (if isMissing (b_id buyer) then [js ''id''] else []) @
     (if isMissing (b_firstName buyer) then [js ''firstName''] else []) @
     (if isMissing (b_lastName buyer) then [js ''lastName''] else []) @
     (if isMissing (b_email buyer) then [js ''email''] else []) @
     (if isMissing (b_phone buyer) then [js ''phone''] else []) @
     (if isMissing (b_productName buyer) then [js ''productName''] else [])"


text \<open>
  The payment of end-to-end scenario 1. The amount is the double nearest to 99.99.
\<close>

definition scenarioAmount :: jsnum where
  "scenarioAmount = Finite (7036170730324623 / 70368744177664)"

definition scenarioOptions :: PaymentOptions where
  "scenarioOptions =
     \<lparr>o_amount = scenarioAmount, o_buyer = scenarioBuyer, o_billing = None, o_shipping = None,
      o_currency = None, o_maxInstallment = None, o_language = None, o_productType = None,
      o_platformType = None, o_websiteIndex = None, o_isInFrame = None,
      o_randomNr = Some (Finite 123456)\<rparr>"


section \<open>Escaped text\<close>

text \<open>Every \<open>&\<close> of the text is the first character of an entity of the table.\<close>

fun ampersandsEscaped :: "jsstring \<Rightarrow> bool" where
  "ampersandsEscaped [] = True"
| "ampersandsEscaped (c # cs) =
     ((if c = 0x26 then list_ex (startsWith (c # cs)) entities else True) \<and> ampersandsEscaped cs)"

text \<open>
  Scenario 1 with the order id \<open>a&b\<close> and the amount 100.
\<close>

definition ampOptions :: PaymentOptions where
  "ampOptions =
     scenarioOptions\<lparr>o_amount := Finite 100, o_buyer := scenarioBuyer\<lparr>b_id := Some (js ''a&b'')\<rparr>\<rparr>"


section \<open>A host for the examples\<close>

text \<open>
  The theorems below hold for every host. Where one is evaluated at a concrete input, this
  host stands in: its keyed hash is the first 32 bytes of key, data and padding, it
  renders the one fractional amount of the examples, and its environment is empty.
\<close>

definition testHost :: host where
  "testHost =
     \<lparr>hmacSha256 = (\<lambda>key data. take 32 (key @ data @ replicate 32 0)),
      fractionToString = (\<lambda>q. js ''99.99''),
      integerToNumber = (\<lambda>i. Finite (of_int i)),
      lowerCaseMapping = (\<lambda>s. s),
      processEnv = Map.empty,
      randomInt = (\<lambda>lo hi. lo)\<rparr>"


section \<open>Properties of the escaping utility\<close>

lemma escapeReplacer_special:
  "escapeReplacer 0x26 = js ''&amp;''"
  "escapeReplacer 0x3C = js ''&lt;''"
  "escapeReplacer 0x3E = js ''&gt;''"
  "escapeReplacer 0x22 = js ''&quot;''"
  "escapeReplacer 0x27 = js ''&#x27;''"
  by (simp_all add: escapeReplacer_def HTML_ESCAPE_MAP_def js_def)

lemma escapeHtml_Nil: "escapeHtml [] = []"
  by (simp add: escapeHtml_def)

lemma escapeHtml_Cons:
  "escapeHtml (c # cs) = (if isHtmlSpecial c then escapeReplacer c else [c]) @ escapeHtml cs"
  by (simp add: escapeHtml_def)

lemma escapeHtml_append: "escapeHtml (xs @ ys) = escapeHtml xs @ escapeHtml ys"
  by (simp add: escapeHtml_def)

lemma escapeHtml_safe: "\<not> list_ex isHtmlSpecial s \<Longrightarrow> escapeHtml s = s"
  by (induction s) (simp_all add: escapeHtml_Nil escapeHtml_Cons)


lemma isHtmlSpecial_cases:
  "isHtmlSpecial c \<Longrightarrow> c = 0x26 \<or> c = 0x3C \<or> c = 0x3E \<or> c = 0x22 \<or> c = 0x27"
  by (simp add: isHtmlSpecial_def)

lemma escapeReplacer_no_markup:
  "isHtmlSpecial c \<Longrightarrow> d \<in> set (escapeReplacer c) \<Longrightarrow>
     d \<noteq> 0x3C \<and> d \<noteq> 0x3E \<and> d \<noteq> 0x22 \<and> d \<noteq> 0x27"
  by (auto dest!: isHtmlSpecial_cases simp: escapeReplacer_special js_def)

lemma escapeHtml_no_markup:
  "d \<in> set (escapeHtml s) \<Longrightarrow> d \<noteq> 0x3C \<and> d \<noteq> 0x3E \<and> d \<noteq> 0x22 \<and> d \<noteq> 0x27"
proof (induction s)
  case Nil
  then show ?case by (simp add: escapeHtml_Nil)
next
  case (Cons c cs)
  show ?case
  proof (cases "isHtmlSpecial c")
    case True
    with Cons show ?thesis
      by (auto simp: escapeHtml_Cons dest: escapeReplacer_no_markup)
  next
    case False
    with Cons show ?thesis
      by (auto simp: escapeHtml_Cons isHtmlSpecial_def)
  qed
qed

lemma escapeReplacer_entity:
  "isHtmlSpecial c \<Longrightarrow> escapeReplacer c \<in> set entities \<and> hd (escapeReplacer c) = 0x26
     \<and> 0x26 \<notin> set (tl (escapeReplacer c)) \<and> escapeReplacer c \<noteq> []"
  by (auto dest!: isHtmlSpecial_cases simp: escapeReplacer_special entities_def HTML_ESCAPE_MAP_def js_def)

lemma amp_first:
  assumes "e = pre @ a # us" "hd e = a" "a \<notin> set (tl e)"
  shows "pre = []"
  using assms by (cases pre) auto

lemma startsWith_append: "startsWith (p @ r) p"
  by (induction p) simp_all

lemma startsWith_iff: "startsWith s p \<longleftrightarrow> (\<exists>r. s = p @ r)"
  by (induction s p rule: startsWith.induct) auto

lemma escapeHtml_amp:
  "escapeHtml s = pre @ 0x26 # post \<Longrightarrow> \<exists>e \<in> set entities. startsWith (0x26 # post) e"
proof (induction s arbitrary: pre)
  case Nil
  then show ?case by (simp add: escapeHtml_Nil)
next
  case (Cons c cs)
  define piece where "piece = (if isHtmlSpecial c then escapeReplacer c else [c])"
  from Cons.prems have eq: "piece @ escapeHtml cs = pre @ 0x26 # post"
    by (simp add: escapeHtml_Cons piece_def)
  then obtain us where
    "(piece = pre @ us \<and> us @ escapeHtml cs = 0x26 # post) \<or>
     (piece @ us = pre \<and> escapeHtml cs = us @ 0x26 # post)"
    by (auto simp: append_eq_append_conv2)
  then consider
      (later) us' where "escapeHtml cs = us' @ 0x26 # post"
    | (here) us' where "piece = pre @ 0x26 # us'" "post = us' @ escapeHtml cs"
    by (cases us) auto
  then show ?case
  proof cases
    case later
    then show ?thesis by (rule Cons.IH)
  next
    case here
    have special: "isHtmlSpecial c"
    proof (rule ccontr)
      assume "\<not> isHtmlSpecial c"
      with here(1) have "[c] = pre @ 0x26 # us'" by (simp add: piece_def)
      then have "c = 0x26" by (cases pre) auto
      with \<open>\<not> isHtmlSpecial c\<close> show False by (simp add: isHtmlSpecial_def)
    qed
    then have piece: "piece = escapeReplacer c" by (simp add: piece_def)
    from escapeReplacer_entity [OF special] piece
    have ent: "piece \<in> set entities" "hd piece = 0x26" "0x26 \<notin> set (tl piece)"
      by simp_all
    from here(1) ent(2,3) have "pre = []" by (rule amp_first)
    with here have "0x26 # post = piece @ escapeHtml cs" by simp
    then have "startsWith (0x26 # post) piece" by (simp only: startsWith_append)
    with ent(1) show ?thesis by blast
  qed
qed


text \<open>
  Claim C5. In the escaped text of any string none of the five special characters is left
  raw: \<open><\<close>, \<open>>\<close>, \<open>"\<close> and \<open>'\<close> do not occur, and \<open>&\<close> occurs only as the first
  character of one of the five entities of the table. Each occurrence of a special
  character is replaced, where it stands, by its own entity (\<open>&amp;\<close>, \<open>&lt;\<close>, \<open>&gt;\<close>,
  \<open>&quot;\<close>, \<open>&#x27;\<close>); and a string with none of the five characters is returned
  unchanged.
\<close>

theorem escapeHtml_entities:
  "(\<forall>d \<in> set (escapeHtml s). d \<noteq> 0x3C \<and> d \<noteq> 0x3E \<and> d \<noteq> 0x22 \<and> d \<noteq> 0x27) \<and>
   (escapeHtml s = pre @ 0x26 # post \<longrightarrow> (\<exists>e \<in> set entities. startsWith (0x26 # post) e)) \<and>
   escapeHtml (xs @ 0x26 # ys) = escapeHtml xs @ js ''&amp;'' @ escapeHtml ys \<and>
   escapeHtml (xs @ 0x3C # ys) = escapeHtml xs @ js ''&lt;'' @ escapeHtml ys \<and>
   escapeHtml (xs @ 0x3E # ys) = escapeHtml xs @ js ''&gt;'' @ escapeHtml ys \<and>
   escapeHtml (xs @ 0x22 # ys) = escapeHtml xs @ js ''&quot;'' @ escapeHtml ys \<and>
   escapeHtml (xs @ 0x27 # ys) = escapeHtml xs @ js ''&#x27;'' @ escapeHtml ys \<and>
   (\<not> list_ex isHtmlSpecial s \<longrightarrow> escapeHtml s = s)"
proof -
  have a: "\<forall>d \<in> set (escapeHtml s). d \<noteq> 0x3C \<and> d \<noteq> 0x3E \<and> d \<noteq> 0x22 \<and> d \<noteq> 0x27"
    using escapeHtml_no_markup by blast
  have b: "escapeHtml s = pre @ 0x26 # post \<longrightarrow> (\<exists>e \<in> set entities. startsWith (0x26 # post) e)"
    using escapeHtml_amp by blast
  have c: "escapeHtml (xs @ 0x26 # ys) = escapeHtml xs @ js ''&amp;'' @ escapeHtml ys"
    "escapeHtml (xs @ 0x3C # ys) = escapeHtml xs @ js ''&lt;'' @ escapeHtml ys"
    "escapeHtml (xs @ 0x3E # ys) = escapeHtml xs @ js ''&gt;'' @ escapeHtml ys"
    "escapeHtml (xs @ 0x22 # ys) = escapeHtml xs @ js ''&quot;'' @ escapeHtml ys"
    "escapeHtml (xs @ 0x27 # ys) = escapeHtml xs @ js ''&#x27;'' @ escapeHtml ys"
    by (simp_all add: escapeHtml_append escapeHtml_Cons isHtmlSpecial_def escapeReplacer_special)
  have d: "\<not> list_ex isHtmlSpecial s \<longrightarrow> escapeHtml s = s"
    using escapeHtml_safe by blast
  from a b c d show ?thesis by blast
qed

text \<open>
  The theorem at \<open><b>&\<close>: the text escapes to \<open>&lt;b&gt;&amp;\<close>, whose last \<open>&\<close> starts
  an entity, and the plain text \<open>plain\<close> is unchanged.
\<close>

theorem escapeHtml_entities_witness:
  "escapeHtml (js ''<b>&'') = js ''&lt;b&gt;&amp;'' \<and>
   (\<exists>e \<in> set entities. startsWith (js ''&amp;'') e) \<and>
   \<not> list_ex isHtmlSpecial (js ''plain'') \<and> escapeHtml (js ''plain'') = js ''plain''"
proof -
  have e: "escapeHtml (js ''<b>&'') = js ''&lt;b&gt;'' @ 0x26 # js ''amp;''"
    by (simp add: js_def escapeHtml_Cons escapeHtml_Nil isHtmlSpecial_def escapeReplacer_special)
  have p: "\<not> list_ex isHtmlSpecial (js ''plain'')"
    by (simp add: js_def isHtmlSpecial_def)
  from escapeHtml_entities [of "js ''<b>&''" "js ''&lt;b&gt;''" "js ''amp;''"] e
  have "\<exists>e \<in> set entities. startsWith (0x26 # js ''amp;'') e" by blast
  moreover from escapeHtml_entities [of "js ''plain''"] p
  have "escapeHtml (js ''plain'') = js ''plain''" by blast
  ultimately show ?thesis using e p by (simp add: js_def)
qed


section \<open>Properties of the signature engine\<close>

lemma verifySignature_try_total:
  "verifySignature_try e c = Inr (utf8 c = utf8 e)"
  by (auto simp: verifySignature_try_def timingSafeEqual_def Let_def)

lemma verifySignature_iff:
  "verifySignature h secret data c \<longleftrightarrow> utf8 c = utf8 (generateSignature h secret data)"
  by (simp add: verifySignature_def verifySignature_try_total)


lemma replicate_numeral: "replicate (numeral n) v = v # replicate (pred_numeral n) v"
  unfolding numeral_eq_Suc by simp

lemma testHost_callback_signature: "generateSignature testHost (js ''s'') (js ''123456b1'') = js ''czEyMzQ1NmIxAAAAAAAAAAAAAAAAAAAAAAAAAAAAAAA=''"
  by (simp add: generateSignature_def testHost_def js_def utf8_unit_def base64Char_def base64Alphabet_def replicate_numeral)


lemma utf8_callback_signature:
  "utf8 (js ''czEyMzQ1NmIxAAAAAAAAAAAAAAAAAAAAAAAAAAAAAAA='') =
     [99, 122, 69, 121, 77, 122, 81, 49, 78, 109, 73, 120, 65, 65, 65, 65, 65,
      65, 65, 65, 65, 65, 65, 65, 65, 65, 65, 65, 65, 65, 65, 65, 65, 65, 65,
      65, 65, 65, 65, 65, 65, 65, 65, 61]"
  by (simp add: js_def utf8_unit_def)

text \<open>
  Claim C1. A signature produced by \<open>generateSignature\<close> verifies; a candidate whose UTF-8
  encoding differs from the expected signature's in length, or at some byte, is rejected;
  and the call never throws: the guarded comparison inside the \<open>try\<close> block always returns
  a value, and \<open>verifySignature\<close> is exactly the test that the two encodings are equal.
\<close>

theorem verifySignature_correct:
  "verifySignature h secret message (generateSignature h secret message) \<and>
   (length (utf8 candidate) \<noteq> length (utf8 (generateSignature h secret message))
      \<longrightarrow> \<not> verifySignature h secret message candidate) \<and>
   ((\<exists>i. i < length (utf8 candidate) \<and> i < length (utf8 (generateSignature h secret message)) \<and>
          utf8 candidate ! i \<noteq> utf8 (generateSignature h secret message) ! i)
      \<longrightarrow> \<not> verifySignature h secret message candidate) \<and>
   (\<exists>b. verifySignature_try (generateSignature h secret message) candidate = Inr b) \<and>
   verifySignature h secret message candidate
     = (utf8 candidate = utf8 (generateSignature h secret message))"
  by (auto simp: verifySignature_iff verifySignature_try_total)

text \<open>
  The theorem at secret \<open>s\<close> and message \<open>123456b1\<close>: the candidate \<open>wrong\<close> has another
  length, and a candidate with the first character changed has another first byte.
\<close>

theorem verifySignature_correct_witness:
  "verifySignature testHost (js ''s'') (js ''123456b1'')
     (generateSignature testHost (js ''s'') (js ''123456b1'')) \<and>
   length (utf8 (js ''wrong'')) \<noteq> length (utf8 (generateSignature testHost (js ''s'') (js ''123456b1''))) \<and>
   \<not> verifySignature testHost (js ''s'') (js ''123456b1'') (js ''wrong'') \<and>
   utf8 (js ''XzEyMzQ1NmIxAAAAAAAAAAAAAAAAAAAAAAAAAAAAAAA='') ! 0
     \<noteq> utf8 (generateSignature testHost (js ''s'') (js ''123456b1'')) ! 0 \<and>
   \<not> verifySignature testHost (js ''s'') (js ''123456b1'')
       (js ''XzEyMzQ1NmIxAAAAAAAAAAAAAAAAAAAAAAAAAAAAAAA='')"
proof -
  let ?sig = "generateSignature testHost (js ''s'') (js ''123456b1'')"
  let ?c = "js ''XzEyMzQ1NmIxAAAAAAAAAAAAAAAAAAAAAAAAAAAAAAA=''"
  have len: "length (utf8 (js ''wrong'')) \<noteq> length (utf8 ?sig)"
    by (simp add: testHost_callback_signature utf8_callback_signature) (simp add: js_def utf8_unit_def)
  have c: "utf8 ?c = 88 # tl (utf8 ?sig)"
    by (simp add: testHost_callback_signature utf8_callback_signature) (simp add: js_def utf8_unit_def)
  have byte: "0 < length (utf8 ?c) \<and> 0 < length (utf8 ?sig) \<and> utf8 ?c ! 0 \<noteq> utf8 ?sig ! 0"
    by (simp add: c) (simp add: testHost_callback_signature utf8_callback_signature)
  from verifySignature_correct [of testHost "js ''s''" "js ''123456b1''" "js ''wrong''"] len
  have 1: "verifySignature testHost (js ''s'') (js ''123456b1'') ?sig"
    and 2: "\<not> verifySignature testHost (js ''s'') (js ''123456b1'') (js ''wrong'')"
    by blast+
  from verifySignature_correct [of testHost "js ''s''" "js ''123456b1''" ?c] byte
  have 3: "\<not> verifySignature testHost (js ''s'') (js ''123456b1'') ?c"
    by blast
  from 1 2 3 len byte show ?thesis by blast
qed


section \<open>Properties of the configuration resolver\<close>

lemma trim_Nil: "trim [] = []"
  by (simp add: trim_def trimEnd_def trimStart_def)

lemma resolveApiKey_spec:
  "resolveApiKey h v = resolutionOrder v (processEnv h (js ''SHOPIER_API_KEY''))"
  by (auto simp: resolveApiKey_def resolutionOrder_def nonBlank_def ENV_API_KEY_def Let_def trim_Nil
           split: option.splits)

lemma resolveApiSecret_spec:
  "resolveApiSecret h v = resolutionOrder v (processEnv h (js ''SHOPIER_API_SECRET''))"
  by (auto simp: resolveApiSecret_def resolutionOrder_def nonBlank_def ENV_API_SECRET_def Let_def trim_Nil
           split: option.splits)

lemma resolutionOrder_nonempty: "resolutionOrder v e = Some s \<Longrightarrow> s \<noteq> []"
  by (auto simp: resolutionOrder_def nonBlank_def split: if_splits option.splits)

lemma resolveConfig_no_key:
  "resolveApiKey h (cfg_apiKey c) = None \<Longrightarrow>
     resolveConfig h (Some c) = Inl (InvalidApiKeyError (js ''API key is missing or empty'') None)"
  by (simp add: resolveConfig_def Let_def)

lemma resolveConfig_no_secret:
  "resolveApiKey h (cfg_apiKey c) = Some k \<Longrightarrow> resolveApiSecret h (cfg_apiSecret c) = None \<Longrightarrow>
     resolveConfig h (Some c) = Inl (InvalidApiSecretError (js ''API secret is missing or empty'') None)"
  using resolutionOrder_nonempty [of "cfg_apiKey c" _ k]
  by (simp add: resolveConfig_def Let_def resolveApiKey_spec)

lemma resolveConfig_both:
  "resolveApiKey h (cfg_apiKey c) = Some k \<Longrightarrow> resolveApiSecret h (cfg_apiSecret c) = Some s \<Longrightarrow>
     \<exists>r. resolveConfig h (Some c) = Inr r \<and> apiKey r = k \<and> apiSecret r = s"
  using resolutionOrder_nonempty [of "cfg_apiKey c" _ k] resolutionOrder_nonempty [of "cfg_apiSecret c" _ s]
  by (simp add: resolveConfig_def Let_def resolveApiKey_spec resolveApiSecret_spec)

lemma error_codes:
  "err_code (InvalidApiKeyError m d) = js ''INVALID_API_KEY''"
  "err_name (InvalidApiKeyError m d) = js ''InvalidApiKeyError''"
  "err_code (InvalidApiSecretError m d) = js ''INVALID_API_SECRET''"
  "err_name (InvalidApiSecretError m d) = js ''InvalidApiSecretError''"
  "err_code (ValidationError m d) = js ''VALIDATION_ERROR''"
  "err_name (ValidationError m d) = js ''ValidationError''"
  "err_code (SignatureValidationError m d) = js ''SIGNATURE_VALIDATION_ERROR''"
  "err_name (SignatureValidationError m d) = js ''SignatureValidationError''"
  by (simp_all add: InvalidApiKeyError_def InvalidApiSecretError_def ValidationError_def
        SignatureValidationError_def newShopierError_def)

lemma error_details:
  "err_details (InvalidApiKeyError m d) = d"
  "err_details (InvalidApiSecretError m d) = d"
  "err_details (ValidationError m d) = d"
  "err_details (SignatureValidationError m d) = d"
  "err_message (InvalidApiKeyError m d) = m"
  "err_message (InvalidApiSecretError m d) = m"
  "err_message (ValidationError m d) = m"
  "err_message (SignatureValidationError m d) = m"
  by (simp_all add: InvalidApiKeyError_def InvalidApiSecretError_def ValidationError_def
        SignatureValidationError_def newShopierError_def)

lemma key_error_is_not_secret_error:
  "InvalidApiKeyError m d \<noteq> InvalidApiSecretError m' d'"
proof
  assume "InvalidApiKeyError m d = InvalidApiSecretError m' d'"
  then have "err_code (InvalidApiKeyError m d) = err_code (InvalidApiSecretError m' d')" by simp
  then show False by (simp add: error_codes js_def)
qed

text \<open>
  Claim C7. Each credential resolves by the specification's order: explicit value, then
  environment, each trimmed and taken only when not blank, else absent. With an absent id
  \<open>resolveConfig\<close> throws \<open>InvalidApiKeyError\<close>, whatever the secret is, so two absent
  credentials always give the key error; with a present id and an absent secret it throws
  \<open>InvalidApiSecretError\<close>; with both present it returns them.
\<close>

theorem resolveConfig_order:
  "resolveApiKey h k = resolutionOrder k (processEnv h (js ''SHOPIER_API_KEY'')) \<and>
   resolveApiSecret h s = resolutionOrder s (processEnv h (js ''SHOPIER_API_SECRET'')) \<and>
   (resolveApiKey h (cfg_apiKey c) = None \<longrightarrow>
      resolveConfig h (Some c) = Inl (InvalidApiKeyError (js ''API key is missing or empty'') None)) \<and>
   (resolveApiKey h (cfg_apiKey c) \<noteq> None \<and> resolveApiSecret h (cfg_apiSecret c) = None \<longrightarrow>
      resolveConfig h (Some c) = Inl (InvalidApiSecretError (js ''API secret is missing or empty'') None)) \<and>
   (resolveApiKey h (cfg_apiKey c) \<noteq> None \<and> resolveApiSecret h (cfg_apiSecret c) \<noteq> None \<longrightarrow>
      (\<exists>r. resolveConfig h (Some c) = Inr r \<and>
           Some (apiKey r) = resolveApiKey h (cfg_apiKey c) \<and>
           Some (apiSecret r) = resolveApiSecret h (cfg_apiSecret c))) \<and>
   resolveConfig h None = resolveConfig h (Some emptyConfig) \<and>
   err_code (InvalidApiKeyError m d) = js ''INVALID_API_KEY'' \<and>
   err_code (InvalidApiSecretError m d) = js ''INVALID_API_SECRET'' \<and>
   InvalidApiKeyError m d \<noteq> InvalidApiSecretError m' d'"
proof -
  have "resolveConfig h None = resolveConfig h (Some emptyConfig)"
    by (simp add: resolveConfig_def)
  moreover have "resolveApiKey h (cfg_apiKey c) \<noteq> None \<and> resolveApiSecret h (cfg_apiSecret c) = None \<longrightarrow>
      resolveConfig h (Some c) = Inl (InvalidApiSecretError (js ''API secret is missing or empty'') None)"
    using resolveConfig_no_secret by blast
  moreover have "resolveApiKey h (cfg_apiKey c) \<noteq> None \<and> resolveApiSecret h (cfg_apiSecret c) \<noteq> None \<longrightarrow>
      (\<exists>r. resolveConfig h (Some c) = Inr r \<and>
           Some (apiKey r) = resolveApiKey h (cfg_apiKey c) \<and>
           Some (apiSecret r) = resolveApiSecret h (cfg_apiSecret c))"
    using resolveConfig_both [of h c] by fastforce
  ultimately show ?thesis
    using resolveApiKey_spec resolveApiSecret_spec resolveConfig_no_key key_error_is_not_secret_error
    by (simp add: error_codes)
qed


text \<open>
  The theorem at concrete configurations: an explicit key with blanks around it is trimmed,
  a secret comes from the environment, and a construction with neither credential throws
  the key error.
\<close>

theorem resolveConfig_order_witness:
  "resolveApiKey testHost (Some (js '' k '')) = Some (js ''k'') \<and>
   resolveConfig testHost None = Inl (InvalidApiKeyError (js ''API key is missing or empty'') None) \<and>
   resolveConfig testHost (Some (emptyConfig\<lparr>cfg_apiKey := Some (js '' k '')\<rparr>))
     = Inl (InvalidApiSecretError (js ''API secret is missing or empty'') None) \<and>
   (\<exists>r. resolveConfig (testHost\<lparr>processEnv := [js ''SHOPIER_API_SECRET'' \<mapsto> js '' s '']\<rparr>)
            (Some (emptyConfig\<lparr>cfg_apiKey := Some (js '' k '')\<rparr>)) = Inr r \<and>
        apiKey r = js ''k'' \<and> apiSecret r = js ''s'')"
proof -
  let ?h = "testHost\<lparr>processEnv := [js ''SHOPIER_API_SECRET'' \<mapsto> js '' s '']\<rparr>"
  let ?c = "emptyConfig\<lparr>cfg_apiKey := Some (js '' k '')\<rparr>"
  have trims: "trim (js '' k '') = js ''k''" "trim (js '' s '') = js ''s''"
    by (simp_all add: trim_def trimStart_def trimEnd_def js_def isWhiteSpace_def)
  have nonblank: "js ''k'' \<noteq> []" "js ''s'' \<noteq> []" "js ''SHOPIER_API_KEY'' \<noteq> js ''SHOPIER_API_SECRET''"
    by (simp_all add: js_def)
  have order: "resolutionOrder (Some (js '' k '')) None = Some (js ''k'')"
    "resolutionOrder None (Some (js '' s '')) = Some (js ''s'')"
    "resolutionOrder None None = None"
    by (simp_all add: resolutionOrder_def nonBlank_def trims nonblank)
  have env: "processEnv testHost = Map.empty"
    "processEnv ?h (js ''SHOPIER_API_KEY'') = None"
    "processEnv ?h (js ''SHOPIER_API_SECRET'') = Some (js '' s '')"
    by (simp_all add: testHost_def nonblank)
  have cfg: "cfg_apiKey emptyConfig = None" "cfg_apiKey ?c = Some (js '' k '')" "cfg_apiSecret ?c = None"
    by (simp_all add: emptyConfig_def)
  have k: "resolveApiKey testHost (Some (js '' k '')) = Some (js ''k'')"
    using resolveConfig_order [of testHost "Some (js '' k '')"] by (simp only: env order)
  have k0: "resolveApiKey testHost (cfg_apiKey emptyConfig) = None"
    by (simp only: resolveApiKey_spec env order cfg)
  have k1: "resolveApiKey testHost (cfg_apiKey ?c) = Some (js ''k'')"
    by (simp only: resolveApiKey_spec env order cfg)
  have s1: "resolveApiSecret testHost (cfg_apiSecret ?c) = None"
    by (simp only: resolveApiSecret_spec env order cfg)
  have k2: "resolveApiKey ?h (cfg_apiKey ?c) = Some (js ''k'')"
    by (simp only: resolveApiKey_spec env order cfg)
  have s2: "resolveApiSecret ?h (cfg_apiSecret ?c) = Some (js ''s'')"
    by (simp only: resolveApiSecret_spec env order cfg)
  have 1: "resolveConfig testHost None = Inl (InvalidApiKeyError (js ''API key is missing or empty'') None)"
    using resolveConfig_order [of testHost _ _ emptyConfig] k0 by metis
  have 2: "resolveConfig testHost (Some ?c)
     = Inl (InvalidApiSecretError (js ''API secret is missing or empty'') None)"
    using resolveConfig_order [of testHost _ _ ?c] k1 s1 by (metis option.distinct(1))
  have 3: "\<exists>r. resolveConfig ?h (Some ?c) = Inr r \<and> apiKey r = js ''k'' \<and> apiSecret r = js ''s''"
    using resolveConfig_order [of ?h _ _ ?c] k2 s2 by (metis option.distinct(1) option.inject)
  from k 1 2 3 show ?thesis by blast
qed


section \<open>Properties of the configuration manager\<close>

lemma updateConfig_secret_throws:
  assumes "cfg_apiKey updates = Some k" "trim k \<noteq> []"
    and "cfg_apiSecret updates = Some s" "resolveApiSecret h (cfg_apiSecret updates) = None"
  shows "updateConfig h updates config
           = (Some (InvalidApiSecretError (js ''API secret is missing or empty'') None),
              config\<lparr>apiKey := trim k\<rparr>)"
proof -
  from assms(2) have "k \<noteq> []" by (auto simp: trim_Nil)
  with assms(1,2) have key: "resolveApiKey h (cfg_apiKey updates) = Some (trim k)"
    by (simp add: resolveApiKey_def Let_def)
  show ?thesis
    using assms(1,2,3,4) key
    by (simp add: updateConfig_def andThen_def Let_def)
qed

text \<open>
  Claim C9. An update with a non-blank key and a secret that resolves to absent throws
  \<open>InvalidApiSecretError\<close> and leaves the manager with the new, trimmed key stored and the
  old secret: the stored key is replaced before the secret is examined.
\<close>

theorem updateConfig_not_atomic:
  assumes "cfg_apiKey updates = Some k" "trim k \<noteq> []"
    and "cfg_apiSecret updates = Some s" "resolveApiSecret h (cfg_apiSecret updates) = None"
  shows "fst (updateConfig h updates config)
           = Some (InvalidApiSecretError (js ''API secret is missing or empty'') None) \<and>
         getApiKey (snd (updateConfig h updates config)) = trim k \<and>
         getApiSecret (snd (updateConfig h updates config)) = getApiSecret config"
  by (simp add: updateConfig_secret_throws [OF assms] getApiKey_def getApiSecret_def)

text \<open>
  The theorem at a manager holding \<open>old-key\<close> and \<open>old-secret\<close>, updated with the key
  \<open>new-key\<close> and a blank secret, the environment being empty.
\<close>

theorem updateConfig_not_atomic_witness:
  "fst (updateConfig testHost
          (emptyConfig\<lparr>cfg_apiKey := Some (js ''new-key''), cfg_apiSecret := Some (js '' '')\<rparr>)
          \<lparr>apiKey = js ''old-key'', apiSecret = js ''old-secret'', language = TR,
           moduleVersion = js ''1.0.4'', websiteIndex = SITE_1\<rparr>)
     = Some (InvalidApiSecretError (js ''API secret is missing or empty'') None) \<and>
   getApiKey (snd (updateConfig testHost
          (emptyConfig\<lparr>cfg_apiKey := Some (js ''new-key''), cfg_apiSecret := Some (js '' '')\<rparr>)
          \<lparr>apiKey = js ''old-key'', apiSecret = js ''old-secret'', language = TR,
           moduleVersion = js ''1.0.4'', websiteIndex = SITE_1\<rparr>)) = js ''new-key'' \<and>
   getApiSecret (snd (updateConfig testHost
          (emptyConfig\<lparr>cfg_apiKey := Some (js ''new-key''), cfg_apiSecret := Some (js '' '')\<rparr>)
          \<lparr>apiKey = js ''old-key'', apiSecret = js ''old-secret'', language = TR,
           moduleVersion = js ''1.0.4'', websiteIndex = SITE_1\<rparr>)) = js ''old-secret''"
proof -
  let ?u = "emptyConfig\<lparr>cfg_apiKey := Some (js ''new-key''), cfg_apiSecret := Some (js '' '')\<rparr>"
  let ?c = "\<lparr>apiKey = js ''old-key'', apiSecret = js ''old-secret'', language = TR,
           moduleVersion = js ''1.0.4'', websiteIndex = SITE_1\<rparr>"
  have trims: "trim (js ''new-key'') = js ''new-key''" "trim (js '' '') = []"
    by (simp_all add: trim_def trimStart_def trimEnd_def js_def isWhiteSpace_def)
  have 1: "cfg_apiKey ?u = Some (js ''new-key'')" and 3: "cfg_apiSecret ?u = Some (js '' '')"
    by (simp_all add: emptyConfig_def)
  have 2: "trim (js ''new-key'') \<noteq> []"
    by (simp add: trims) (simp add: js_def)
  have 4: "resolveApiSecret testHost (cfg_apiSecret ?u) = None"
    by (simp add: 3 resolveApiSecret_spec resolutionOrder_def nonBlank_def trims testHost_def)
  from updateConfig_not_atomic [OF 1 2 3 4, of ?c] show ?thesis
    by (simp add: trims getApiSecret_def)
qed


section \<open>Properties of the callback verifier\<close>

lemma digit_unit:
  assumes "d < 10"
  shows "isDigit (of_nat (48 + d))" "\<not> isWhiteSpace (of_nat (48 + d))"
    "unat (of_nat (48 + d) :: code_unit) = 48 + d"
    "(of_nat (48 + d) :: code_unit) \<noteq> 0x2B" "(of_nat (48 + d) :: code_unit) \<noteq> 0x2D"
proof -
  from assms have "d = 0 \<or> d = 1 \<or> d = 2 \<or> d = 3 \<or> d = 4 \<or> d = 5 \<or> d = 6 \<or> d = 7 \<or> d = 8 \<or> d = 9"
    by arith
  then show "isDigit (of_nat (48 + d))" "\<not> isWhiteSpace (of_nat (48 + d))"
    "unat (of_nat (48 + d) :: code_unit) = 48 + d"
    "(of_nat (48 + d) :: code_unit) \<noteq> 0x2B" "(of_nat (48 + d) :: code_unit) \<noteq> 0x2D"
    by (auto simp: isDigit_def isWhiteSpace_def)
qed

lemma digits_nonempty: "digits n \<noteq> []"
  by (subst digits.simps) simp

lemma digits_units: "c \<in> set (digits n) \<Longrightarrow> \<exists>d<10. c = of_nat (48 + d)"
proof (induction n rule: digits.induct)
  case (1 n)
  show ?case
  proof (cases "n < 10")
    case True
    with "1.prems" show ?thesis by (subst (asm) digits.simps) auto
  next
    case False
    from "1.prems" have "c \<in> set (digits (n div 10)) \<or> c = of_nat (48 + n mod 10)"
      by (subst (asm) digits.simps) (auto simp: False)
    then show ?thesis
    proof
      assume "c \<in> set (digits (n div 10))"
      with False "1.IH" show ?thesis by blast
    next
      assume "c = of_nat (48 + n mod 10)"
      moreover have "n mod 10 < 10" by simp
      ultimately show ?thesis by blast
    qed
  qed
qed

lemma digitsValue_snoc: "digitsValue (z @ [c]) = 10 * digitsValue z + (unat c - 48)"
  by (simp add: digitsValue_def)

lemma digitsValue_digits: "digitsValue (digits n) = n"
proof (induction n rule: digits.induct)
  case (1 n)
  show ?case
  proof (cases "n < 10")
    case True
    then have "digits n = [of_nat (48 + n)]" by (subst digits.simps) simp
    with True show ?thesis by (simp add: digitsValue_def digit_unit(3) del: of_nat_add)
  next
    case False
    then have "digits n = digits (n div 10) @ [of_nat (48 + n mod 10)]"
      by (subst digits.simps) simp
    moreover have "unat (of_nat (48 + n mod 10) :: code_unit) = 48 + n mod 10"
      by (rule digit_unit(3)) simp
    ultimately show ?thesis using "1.IH" False by (simp add: digitsValue_snoc del: of_nat_add)
  qed
qed


lemma digits_unit_props:
  assumes "c \<in> set (digits n)"
  shows "isDigit c" "\<not> isWhiteSpace c" "c \<noteq> 0x2B" "c \<noteq> 0x2D"
proof -
  from digits_units [OF assms] obtain d where d: "d < 10" "c = of_nat (48 + d)" by blast
  show "isDigit c" unfolding d(2) by (rule digit_unit(1) [OF d(1)])
  show "\<not> isWhiteSpace c" unfolding d(2) by (rule digit_unit(2) [OF d(1)])
  show "c \<noteq> 0x2B" unfolding d(2) by (rule digit_unit(4) [OF d(1)])
  show "c \<noteq> 0x2D" unfolding d(2) by (rule digit_unit(5) [OF d(1)])
qed

lemma parseInt10_digits: "parseInt10 h (digits n) = numberOfInt h (int n)"
proof -
  obtain c r where cr: "digits n = c # r"
    using digits_nonempty [of n] by (cases "digits n") auto
  then have "c \<in> set (digits n)" by simp
  then have c: "\<not> isWhiteSpace c" "c \<noteq> 0x2B" "c \<noteq> 0x2D"
    by (rule digits_unit_props)+
  have t: "trimStart (digits n) = digits n"
    by (simp add: trimStart_def cr c)
  have z: "takeWhile isDigit (digits n) = digits n"
    by (simp add: takeWhile_eq_all_conv digits_unit_props(1))
  have hd: "hd (digits n) = c" by (simp add: cr)
  show ?thesis
    unfolding parseInt10_def Let_def t
    by (simp add: hd c z digitsValue_digits digits_nonempty)
qed

lemma verifyCallback_accept:
  assumes "verifySignature h (apiSecret config) (cb_random_nr body @ cb_platform_order_id body)
             (cb_signature body)"
  shows "verifyCallback h config body =
           Inr \<lparr>success = (cb_status body = js ''success''),
                 orderId = cb_platform_order_id body,
                 paymentId = cb_payment_id body,
                 installment = (if parseInt10 h (cb_installment body) = NaN then Finite 0
                                else parseInt10 h (cb_installment body)),
                 platformOrderId = cb_platform_order_id body,
                 status = cb_status body\<rparr>"
  using assms by (auto simp: verifyCallback_def Let_def)

lemma verifyCallback_reject:
  assumes "\<not> verifySignature h (apiSecret config) (cb_random_nr body @ cb_platform_order_id body)
             (cb_signature body)"
  shows "verifyCallback h config body =
           Inl (SignatureValidationError (js ''Callback signature verification failed'') None)"
  using assms by (simp add: verifyCallback_def Let_def)

lemma numberOfInt_small: "\<bar>i\<bar> \<le> 2 ^ 53 \<Longrightarrow> numberOfInt h i = Finite (of_int i)"
  by (simp add: numberOfInt_def)

text \<open>
  Claim C3. When the signature of a notification verifies against the HMAC of \<open>random_nr\<close>
  followed by \<open>platform_order_id\<close>, \<open>verifyCallback\<close> returns a result: \<open>success\<close> holds
  exactly when the status is the string \<open>success\<close>; \<open>installment\<close> is what \<open>parseInt\<close> reads
  from the installment string, and 0 when it reads no number, so a decimal numeral up to
  \<open>2^53\<close> gives its value; the payment id and the status are passed through; and the
  order id is stored in both \<open>orderId\<close> and \<open>platformOrderId\<close>.
\<close>

theorem verifyCallback_decodes:
  assumes "verifySignature h (apiSecret config)
             (cb_random_nr body @ cb_platform_order_id body) (cb_signature body)"
  shows "\<exists>r. verifyCallback h config body = Inr r \<and>
           success r = (cb_status body = js ''success'') \<and>
           installment r = (if parseInt10 h (cb_installment body) = NaN then Finite 0
                            else parseInt10 h (cb_installment body)) \<and>
           (cb_installment body = digits n \<and> int n \<le> 2 ^ 53 \<longrightarrow> installment r = Finite (of_nat n)) \<and>
           paymentId r = cb_payment_id body \<and>
           status r = cb_status body \<and>
           orderId r = cb_platform_order_id body \<and>
           platformOrderId r = cb_platform_order_id body"
proof -
  have "cb_installment body = digits n \<and> int n \<le> 2 ^ 53 \<longrightarrow>
          (if parseInt10 h (cb_installment body) = NaN then Finite 0
           else parseInt10 h (cb_installment body)) = Finite (of_nat n)"
    by (simp add: parseInt10_digits numberOfInt_small)
  then show ?thesis
    by (simp add: verifyCallback_accept [OF assms])
qed


lemma scenario_resolved:
  "resolveConfig h (Some (emptyConfig\<lparr>cfg_apiKey := Some (js ''k''), cfg_apiSecret := Some (js ''s'')\<rparr>))
     = Inr scenarioConfig"
proof -
  have "trim (js ''k'') = js ''k''" "trim (js ''s'') = js ''s''" "js ''k'' \<noteq> []" "js ''s'' \<noteq> []"
    by (simp_all add: trim_def trimStart_def trimEnd_def js_def isWhiteSpace_def)
  then show ?thesis
    by (simp add: resolveConfig_def resolveApiKey_def resolveApiSecret_def Let_def emptyConfig_def
          scenarioConfig_def DEFAULT_language_def DEFAULT_moduleVersion_def DEFAULT_websiteIndex_def)
qed

lemma scenario_signature_accepted:
  "verifySignature testHost (apiSecret scenarioConfig)
     (cb_random_nr (scenarioCallback sig) @ cb_platform_order_id (scenarioCallback sig))
     (generateCallbackSignature testHost (js ''s'') (js ''123456'') (js ''b1''))"
  by (simp add: verifySignature_iff generateCallbackSignature_def scenarioConfig_def
        scenarioCallback_def)

lemma scenario_wrong_rejected:
  "\<not> verifySignature testHost (apiSecret scenarioConfig)
       (cb_random_nr (scenarioCallback sig) @ cb_platform_order_id (scenarioCallback sig))
       (js ''wrong'')"
proof -
  have data: "js ''123456'' @ js ''b1'' = js ''123456b1''" by (simp add: js_def)
  have "length (utf8 (js ''wrong'')) \<noteq>
        length (utf8 (generateSignature testHost (js ''s'') (js ''123456b1'')))"
    by (simp add: testHost_callback_signature utf8_callback_signature) (simp add: js_def utf8_unit_def)
  then show ?thesis
    by (auto simp: verifySignature_iff scenarioConfig_def scenarioCallback_def data)
qed

text \<open>
  The theorem at end-to-end scenario 2: the notification signed with
  \<open>generateCallbackSignature\<close> over \<open>123456\<close> and \<open>b1\<close> is decoded to the result the
  specification lists.
\<close>

theorem verifyCallback_decodes_witness:
  "verifyCallback testHost scenarioConfig
     (scenarioCallback (generateCallbackSignature testHost (js ''s'') (js ''123456'') (js ''b1'')))
   = Inr \<lparr>success = True, orderId = js ''b1'', paymentId = js ''p1'', installment = Finite 3,
           platformOrderId = js ''b1'', status = js ''success''\<rparr>"
proof -
  let ?b = "scenarioCallback (generateCallbackSignature testHost (js ''s'') (js ''123456'') (js ''b1''))"
  have sig: "cb_signature ?b = generateCallbackSignature testHost (js ''s'') (js ''123456'') (js ''b1'')"
    by (simp add: scenarioCallback_def)
  have ok: "verifySignature testHost (apiSecret scenarioConfig)
              (cb_random_nr ?b @ cb_platform_order_id ?b) (cb_signature ?b)"
    unfolding sig by (rule scenario_signature_accepted)
  have inst: "cb_installment ?b = digits 3 \<and> int 3 \<le> 2 ^ 53"
    by (simp add: scenarioCallback_def digits.simps js_def)
  from verifyCallback_decodes [OF ok, of 3] inst obtain r where
    r: "verifyCallback testHost scenarioConfig ?b = Inr r"
      "success r = (cb_status ?b = js ''success'')" "installment r = Finite (of_nat 3)"
      "paymentId r = cb_payment_id ?b" "status r = cb_status ?b"
      "orderId r = cb_platform_order_id ?b" "platformOrderId r = cb_platform_order_id ?b"
    by blast
  from r(2-7) have "r = \<lparr>success = True, orderId = js ''b1'', paymentId = js ''p1'',
      installment = Finite 3, platformOrderId = js ''b1'', status = js ''success''\<rparr>"
    by (cases r) (simp add: scenarioCallback_def)
  with r(1) show ?thesis by simp
qed

text \<open>
  Claim C4. When the signature of a notification does not verify, \<open>verifyCallback\<close> throws
  a \<open>SignatureValidationError\<close> with code \<open>SIGNATURE_VALIDATION_ERROR\<close> whose detail payload
  is absent, and absent again in the safe-JSON projection: neither payload mentions the
  received signature or the expected one. The projection is the same fixed object for
  every rejected notification.
\<close>

theorem verifyCallback_rejection_is_silent:
  assumes "\<not> verifySignature h (apiSecret config)
               (cb_random_nr body @ cb_platform_order_id body) (cb_signature body)"
  shows "\<exists>e. verifyCallback h config body = Inl e \<and>
           e = SignatureValidationError (js ''Callback signature verification failed'') None \<and>
           err_name e = js ''SignatureValidationError'' \<and>
           err_code e = js ''SIGNATURE_VALIDATION_ERROR'' \<and>
           err_details e = None \<and>
           \<not> payloadMentions (err_details e) (cb_signature body) \<and>
           \<not> payloadMentions (err_details e)
               (generateSignature h (apiSecret config) (cb_random_nr body @ cb_platform_order_id body)) \<and>
           \<not> payloadMentions (json_details (toSafeJSON h e)) (cb_signature body) \<and>
           \<not> payloadMentions (json_details (toSafeJSON h e))
               (generateSignature h (apiSecret config) (cb_random_nr body @ cb_platform_order_id body)) \<and>
           toSafeJSON h e =
             \<lparr>json_name = js ''SignatureValidationError'',
              json_message = js ''Callback signature verification failed'',
              json_code = js ''SIGNATURE_VALIDATION_ERROR'',
              json_details = None\<rparr>"
  by (simp add: verifyCallback_reject [OF assms] error_codes error_details toSafeJSON_def
        getSafeDetails_def payloadMentions_def)

text \<open>
  The theorem at end-to-end scenario 3: the notification of scenario 2 with the signature
  \<open>wrong\<close> is rejected, and the error's payloads are absent.
\<close>

theorem verifyCallback_rejection_is_silent_witness:
  "\<exists>e. verifyCallback testHost scenarioConfig (scenarioCallback (js ''wrong'')) = Inl e \<and>
       err_code e = js ''SIGNATURE_VALIDATION_ERROR'' \<and>
       err_details e = None \<and> json_details (toSafeJSON testHost e) = None \<and>
       \<not> payloadMentions (json_details (toSafeJSON testHost e)) (js ''wrong'')"
proof -
  let ?b = "scenarioCallback (js ''wrong'')"
  have sig: "cb_signature ?b = js ''wrong''" by (simp add: scenarioCallback_def)
  have bad: "\<not> verifySignature testHost (apiSecret scenarioConfig)
               (cb_random_nr ?b @ cb_platform_order_id ?b) (cb_signature ?b)"
    unfolding sig by (rule scenario_wrong_rejected)
  from verifyCallback_rejection_is_silent [OF bad] obtain e where
    e: "verifyCallback testHost scenarioConfig ?b = Inl e"
      "err_code e = js ''SIGNATURE_VALIDATION_ERROR''" "err_details e = None"
      "\<not> payloadMentions (json_details (toSafeJSON testHost e)) (cb_signature ?b)"
      "toSafeJSON testHost e =
             \<lparr>json_name = js ''SignatureValidationError'',
              json_message = js ''Callback signature verification failed'',
              json_code = js ''SIGNATURE_VALIDATION_ERROR'',
              json_details = None\<rparr>"
    by blast
  from e(5) have "json_details (toSafeJSON testHost e) = None" by simp
  with e(1-4) sig show ?thesis by auto
qed

text \<open>
  Claim C10. Two notifications that agree on \<open>random_nr\<close>, \<open>platform_order_id\<close> and
  \<open>signature\<close> are both accepted or both rejected, with the same error, whatever their
  status, payment id and installment are; and an accepted notification's status and payment
  id are copied into the result, its installment string is read by \<open>parseInt\<close>, none of the
  three being checked against the signature.
\<close>

theorem verifyCallback_decision_fields:
  assumes "cb_random_nr b1 = cb_random_nr b2"
    and "cb_platform_order_id b1 = cb_platform_order_id b2"
    and "cb_signature b1 = cb_signature b2"
  shows "(isl (verifyCallback h config b1) \<longleftrightarrow> isl (verifyCallback h config b2)) \<and>
         (\<forall>e. verifyCallback h config b1 = Inl e \<longrightarrow> verifyCallback h config b2 = Inl e) \<and>
         (\<forall>r. verifyCallback h config b1 = Inr r \<longrightarrow>
               status r = cb_status b1 \<and> paymentId r = cb_payment_id b1 \<and>
               success r = (cb_status b1 = js ''success'') \<and>
               installment r = (if parseInt10 h (cb_installment b1) = NaN then Finite 0
                                else parseInt10 h (cb_installment b1)))"
proof (cases "verifySignature h (apiSecret config)
               (cb_random_nr b1 @ cb_platform_order_id b1) (cb_signature b1)")
  case True
  with assms have "verifySignature h (apiSecret config)
               (cb_random_nr b2 @ cb_platform_order_id b2) (cb_signature b2)" by simp
  with True show ?thesis
    by (auto simp: verifyCallback_accept)
next
  case False
  with assms have "\<not> verifySignature h (apiSecret config)
               (cb_random_nr b2 @ cb_platform_order_id b2) (cb_signature b2)" by simp
  with False show ?thesis
    by (simp add: verifyCallback_reject)
qed

text \<open>
  The theorem at the notification of scenario 2 and a copy of it that reports a failed
  payment \<open>p2\<close> in 12 installments under the same signature: both are accepted, and the
  copy's unsigned fields reach the result.
\<close>

theorem verifyCallback_decision_fields_witness:
  "isl (verifyCallback testHost scenarioConfig
          (scenarioCallback (generateCallbackSignature testHost (js ''s'') (js ''123456'') (js ''b1'')))) =
   isl (verifyCallback testHost scenarioConfig
          ((scenarioCallback (generateCallbackSignature testHost (js ''s'') (js ''123456'') (js ''b1'')))
             \<lparr>cb_payment_id := js ''p2'', cb_installment := js ''12'', cb_status := js ''failed''\<rparr>)) \<and>
   (\<exists>r. verifyCallback testHost scenarioConfig
          ((scenarioCallback (generateCallbackSignature testHost (js ''s'') (js ''123456'') (js ''b1'')))
             \<lparr>cb_payment_id := js ''p2'', cb_installment := js ''12'', cb_status := js ''failed''\<rparr>) = Inr r \<and>
        status r = js ''failed'' \<and> paymentId r = js ''p2'' \<and> \<not> success r)"
proof -
  let ?b = "scenarioCallback (generateCallbackSignature testHost (js ''s'') (js ''123456'') (js ''b1''))"
  let ?b' = "?b\<lparr>cb_payment_id := js ''p2'', cb_installment := js ''12'', cb_status := js ''failed''\<rparr>"
  have same: "cb_random_nr ?b' = cb_random_nr ?b" "cb_platform_order_id ?b' = cb_platform_order_id ?b"
    "cb_signature ?b' = cb_signature ?b"
    by simp_all
  have "verifySignature testHost (apiSecret scenarioConfig)
              (cb_random_nr ?b' @ cb_platform_order_id ?b') (cb_signature ?b')"
    using scenario_signature_accepted by (simp add: scenarioCallback_def)
  then obtain r where r: "verifyCallback testHost scenarioConfig ?b' = Inr r"
    by (simp add: verifyCallback_accept)
  from verifyCallback_decision_fields [OF same, of testHost scenarioConfig] r
  have "isl (verifyCallback testHost scenarioConfig ?b') = isl (verifyCallback testHost scenarioConfig ?b)"
    and "status r = cb_status ?b'" "paymentId r = cb_payment_id ?b'"
    and "success r = (cb_status ?b' = js ''success'')"
    by blast+
  moreover have "js ''failed'' \<noteq> js ''success''" by (simp add: js_def)
  ultimately show ?thesis using r by simp
qed


section \<open>Properties of the validator\<close>

lemma trim_scenario:
  "trim (js ''b1'') = js ''b1''" "trim (js ''Plan'') = js ''Plan''" "trim (js ''Ahmet'') = js ''Ahmet''"
  "trim (js ''Y'' @ [0x131] @ js ''lmaz'') = js ''Y'' @ [0x131] @ js ''lmaz''"
  "trim (js ''a@example.com'') = js ''a@example.com''"
  "trim (js ''05551234567'') = js ''05551234567''"
  by (simp_all add: trim_def trimStart_def trimEnd_def js_def isWhiteSpace_def)

lemma validateEmail_scenario: "validateEmail (Some (js ''a@example.com''))"
  unfolding validateEmail_def
  by (simp add: trim_scenario) (simp add: js_def emailRegex_def one_or_more_def exactly_one_def isWhiteSpace_def)

lemma validatePhone_scenario: "validatePhone (Some (js ''05551234567''))"
  by (simp add: validatePhone_def phoneRegex_def js_def isWhiteSpace_def isDigit_def)


lemma missingFieldsOf_member:
  "name \<in> set (missingFieldsOf buyer) \<longleftrightarrow>
     (\<exists>get. (name, get) \<in> set requiredFields \<and> isMissing (get buyer))"
  by (force simp: missingFieldsOf_def)

lemma missingFieldsOf_empty:
  "missingFieldsOf buyer = [] \<longleftrightarrow>
     \<not> (isMissing (b_id buyer) \<or> isMissing (b_firstName buyer) \<or> isMissing (b_lastName buyer) \<or>
        isMissing (b_email buyer) \<or> isMissing (b_phone buyer) \<or> isMissing (b_productName buyer))"
proof -
  have "missingFieldsOf buyer = [] \<longleftrightarrow> set (missingFieldsOf buyer) = {}" by simp
  also have "\<dots> \<longleftrightarrow> (\<forall>name. name \<notin> set (missingFieldsOf buyer))" by auto
  also have "\<dots> \<longleftrightarrow> \<not> (isMissing (b_id buyer) \<or> isMissing (b_firstName buyer) \<or>
        isMissing (b_lastName buyer) \<or> isMissing (b_email buyer) \<or> isMissing (b_phone buyer) \<or>
        isMissing (b_productName buyer))"
    unfolding missingFieldsOf_member by (auto simp: requiredFields_def)
  finally show ?thesis .
qed


lemma scenarioBuyer_complete:
  "\<not> isMissing (b_id scenarioBuyer)" "\<not> isMissing (b_firstName scenarioBuyer)"
  "\<not> isMissing (b_lastName scenarioBuyer)" "\<not> isMissing (b_email scenarioBuyer)"
  "\<not> isMissing (b_phone scenarioBuyer)" "\<not> isMissing (b_productName scenarioBuyer)"
  by (simp_all add: isMissing_def scenarioBuyer_def trim_def trimStart_def trimEnd_def js_def
        isWhiteSpace_def)

lemma validateBuyer_scenario: "validateBuyer scenarioBuyer = Inr ()"
proof -
  have "missingFieldsOf scenarioBuyer = []"
    by (simp add: missingFieldsOf_empty scenarioBuyer_complete)
  moreover have "validateEmail (b_email scenarioBuyer)" "validatePhone (b_phone scenarioBuyer)"
    by (simp_all add: scenarioBuyer_def validateEmail_scenario validatePhone_scenario)
  ultimately show ?thesis
    by (simp add: validateBuyer_def)
qed


lemma missingFieldsOf_spec: "missingFieldsOf buyer = blankFieldNames buyer"
  by (simp add: missingFieldsOf_def requiredFields_def blankFieldNames_def)

lemma isMissing_Some: "\<not> isMissing v \<Longrightarrow> \<exists>s. v = Some s"
  by (cases v) (simp_all add: isMissing_def)

lemma email_error_is_not_phone_error:
  "ValidationError (js ''Invalid email format'') d \<noteq> ValidationError (js ''Invalid phone number format'') d'"
proof
  assume "ValidationError (js ''Invalid email format'') d = ValidationError (js ''Invalid phone number format'') d'"
  then have "err_message (ValidationError (js ''Invalid email format'') d)
           = err_message (ValidationError (js ''Invalid phone number format'') d')" by simp
  then show False by (simp add: error_details js_def)
qed

text \<open>
  Claim C8. When a required field of the buyer is missing, null or blank, \<open>validateBuyer\<close>
  throws a \<open>ValidationError\<close> whose detail lists exactly the names of those fields. Only
  when all six are present and non-blank are the shapes checked: a malformed email gives
  an error naming \<open>email\<close> and the raw email, otherwise a malformed phone gives an error
  naming \<open>phone\<close> and the raw phone, and the two errors differ; otherwise the buyer passes.
\<close>

theorem validateBuyer_reports:
  "(isMissing (b_id buyer) \<or> isMissing (b_firstName buyer) \<or> isMissing (b_lastName buyer) \<or>
    isMissing (b_email buyer) \<or> isMissing (b_phone buyer) \<or> isMissing (b_productName buyer) \<longrightarrow>
      validateBuyer buyer =
        Inl (ValidationError
               (js ''Missing required buyer fields: '' @ join (js '', '') (blankFieldNames buyer))
               (Some [(js ''missingFields'', DStrings (blankFieldNames buyer))]))) \<and>
   (\<not> (isMissing (b_id buyer) \<or> isMissing (b_firstName buyer) \<or> isMissing (b_lastName buyer) \<or>
       isMissing (b_email buyer) \<or> isMissing (b_phone buyer) \<or> isMissing (b_productName buyer)) \<longrightarrow>
      (\<exists>e p. b_email buyer = Some e \<and> b_phone buyer = Some p \<and>
         (\<not> validateEmail (Some e) \<longrightarrow>
            validateBuyer buyer =
              Inl (ValidationError (js ''Invalid email format'')
                     (Some [(js ''field'', DString (js ''email'')), (js ''value'', DString e)]))) \<and>
         (validateEmail (Some e) \<and> \<not> validatePhone (Some p) \<longrightarrow>
            validateBuyer buyer =
              Inl (ValidationError (js ''Invalid phone number format'')
                     (Some [(js ''field'', DString (js ''phone'')), (js ''value'', DString p)]))) \<and>
         (validateEmail (Some e) \<and> validatePhone (Some p) \<longrightarrow> validateBuyer buyer = Inr ()))) \<and>
   err_code (ValidationError m d) = js ''VALIDATION_ERROR'' \<and>
   ValidationError (js ''Invalid email format'') d \<noteq> ValidationError (js ''Invalid phone number format'') d'"
proof -
  let ?any = "isMissing (b_id buyer) \<or> isMissing (b_firstName buyer) \<or> isMissing (b_lastName buyer) \<or>
    isMissing (b_email buyer) \<or> isMissing (b_phone buyer) \<or> isMissing (b_productName buyer)"
  have 1: "?any \<longrightarrow> validateBuyer buyer =
        Inl (ValidationError
               (js ''Missing required buyer fields: '' @ join (js '', '') (blankFieldNames buyer))
               (Some [(js ''missingFields'', DStrings (blankFieldNames buyer))]))"
  proof
    assume ?any
    then have "missingFieldsOf buyer \<noteq> []" by (simp only: missingFieldsOf_empty simp_thms)
    then show "validateBuyer buyer =
        Inl (ValidationError
               (js ''Missing required buyer fields: '' @ join (js '', '') (blankFieldNames buyer))
               (Some [(js ''missingFields'', DStrings (blankFieldNames buyer))]))"
      by (simp add: validateBuyer_def Let_def flip: missingFieldsOf_spec)
  qed
  have 2: "\<not> ?any \<longrightarrow>
      (\<exists>e p. b_email buyer = Some e \<and> b_phone buyer = Some p \<and>
         (\<not> validateEmail (Some e) \<longrightarrow>
            validateBuyer buyer =
              Inl (ValidationError (js ''Invalid email format'')
                     (Some [(js ''field'', DString (js ''email'')), (js ''value'', DString e)]))) \<and>
         (validateEmail (Some e) \<and> \<not> validatePhone (Some p) \<longrightarrow>
            validateBuyer buyer =
              Inl (ValidationError (js ''Invalid phone number format'')
                     (Some [(js ''field'', DString (js ''phone'')), (js ''value'', DString p)]))) \<and>
         (validateEmail (Some e) \<and> validatePhone (Some p) \<longrightarrow> validateBuyer buyer = Inr ()))"
  proof
    assume none: "\<not> ?any"
    then have empty: "missingFieldsOf buyer = []" by (simp only: missingFieldsOf_empty simp_thms)
    from none obtain e p where ep: "b_email buyer = Some e" "b_phone buyer = Some p"
      using isMissing_Some by blast
    have "(\<not> validateEmail (Some e) \<longrightarrow>
            validateBuyer buyer =
              Inl (ValidationError (js ''Invalid email format'')
                     (Some [(js ''field'', DString (js ''email'')), (js ''value'', DString e)]))) \<and>
         (validateEmail (Some e) \<and> \<not> validatePhone (Some p) \<longrightarrow>
            validateBuyer buyer =
              Inl (ValidationError (js ''Invalid phone number format'')
                     (Some [(js ''field'', DString (js ''phone'')), (js ''value'', DString p)]))) \<and>
         (validateEmail (Some e) \<and> validatePhone (Some p) \<longrightarrow> validateBuyer buyer = Inr ())"
      by (simp add: validateBuyer_def Let_def empty ep detailOf_def)
    with ep show "\<exists>e p. b_email buyer = Some e \<and> b_phone buyer = Some p \<and>
         (\<not> validateEmail (Some e) \<longrightarrow>
            validateBuyer buyer =
              Inl (ValidationError (js ''Invalid email format'')
                     (Some [(js ''field'', DString (js ''email'')), (js ''value'', DString e)]))) \<and>
         (validateEmail (Some e) \<and> \<not> validatePhone (Some p) \<longrightarrow>
            validateBuyer buyer =
              Inl (ValidationError (js ''Invalid phone number format'')
                     (Some [(js ''field'', DString (js ''phone'')), (js ''value'', DString p)]))) \<and>
         (validateEmail (Some e) \<and> validatePhone (Some p) \<longrightarrow> validateBuyer buyer = Inr ())"
      by blast
  qed
  from 1 2 show ?thesis
    using email_error_is_not_phone_error by (simp add: error_codes)
qed


text \<open>
  The theorem at four buyers: the buyer of scenario 1 with the email removed and the phone
  blank, with the email \<open>nope\<close>, with the phone \<open>12\<close>, and unchanged.
\<close>

theorem validateBuyer_reports_witness:
  "validateBuyer (scenarioBuyer\<lparr>b_email := None, b_phone := Some (js ''  '')\<rparr>) =
     Inl (ValidationError (js ''Missing required buyer fields: email, phone'')
            (Some [(js ''missingFields'', DStrings [js ''email'', js ''phone''])])) \<and>
   validateBuyer (scenarioBuyer\<lparr>b_email := Some (js ''nope'')\<rparr>) =
     Inl (ValidationError (js ''Invalid email format'')
            (Some [(js ''field'', DString (js ''email'')), (js ''value'', DString (js ''nope''))])) \<and>
   validateBuyer (scenarioBuyer\<lparr>b_phone := Some (js ''12'')\<rparr>) =
     Inl (ValidationError (js ''Invalid phone number format'')
            (Some [(js ''field'', DString (js ''phone'')), (js ''value'', DString (js ''12''))])) \<and>
   validateBuyer scenarioBuyer = Inr ()"
proof -
  let ?b1 = "scenarioBuyer\<lparr>b_email := None, b_phone := Some (js ''  '')\<rparr>"
  let ?b2 = "scenarioBuyer\<lparr>b_email := Some (js ''nope'')\<rparr>"
  let ?b3 = "scenarioBuyer\<lparr>b_phone := Some (js ''12'')\<rparr>"
  have blank: "isMissing None" "isMissing (Some (js ''  ''))"
    "\<not> isMissing (Some (js ''nope''))" "\<not> isMissing (Some (js ''12''))"
    by (simp_all add: isMissing_def trim_def trimStart_def trimEnd_def js_def isWhiteSpace_def)
  have shapes: "\<not> validateEmail (Some (js ''nope''))" "\<not> validatePhone (Some (js ''12''))"
    by (simp_all add: validateEmail_def validatePhone_def emailRegex_def phoneRegex_def
          one_or_more_def exactly_one_def trim_def trimStart_def trimEnd_def js_def
          isWhiteSpace_def isDigit_def)
  have names: "blankFieldNames ?b1 = [js ''email'', js ''phone'']"
    using scenarioBuyer_complete by (simp add: blankFieldNames_def blank)
  have msg: "js ''Missing required buyer fields: '' @ js ''email'' @ js '', '' @ js ''phone''
               = js ''Missing required buyer fields: email, phone''"
    by (simp add: js_def)
  have 1: "validateBuyer ?b1 =
     Inl (ValidationError (js ''Missing required buyer fields: email, phone'')
            (Some [(js ''missingFields'', DStrings [js ''email'', js ''phone''])]))"
    using validateBuyer_reports [of ?b1] blank(1) by (simp add: names msg)
  have 2: "validateBuyer ?b2 =
     Inl (ValidationError (js ''Invalid email format'')
            (Some [(js ''field'', DString (js ''email'')), (js ''value'', DString (js ''nope''))]))"
    using validateBuyer_reports [of ?b2] scenarioBuyer_complete blank(3) shapes(1) by simp
  have 3: "validateBuyer ?b3 =
     Inl (ValidationError (js ''Invalid phone number format'')
            (Some [(js ''field'', DString (js ''phone'')), (js ''value'', DString (js ''12''))]))"
    using validateBuyer_reports [of ?b3] scenarioBuyer_complete blank(4) shapes(2)
      validateEmail_scenario by (simp add: scenarioBuyer_def)
  have 4: "validateBuyer scenarioBuyer = Inr ()"
    using validateBuyer_reports [of scenarioBuyer] scenarioBuyer_complete
      validateEmail_scenario validatePhone_scenario by (simp add: scenarioBuyer_def)
  from 1 2 3 4 show ?thesis by blast
qed


section \<open>Properties of the payment-request builder\<close>

lemma includes_str_iff: "includes_str s p \<longleftrightarrow> (\<exists>pre post. s = pre @ p @ post)"
proof (induction s)
  case Nil
  then show ?case by auto
next
  case (Cons c cs)
  show ?case
  proof
    assume "includes_str (c # cs) p"
    then consider "startsWith (c # cs) p" | "includes_str cs p" by auto
    then show "\<exists>pre post. c # cs = pre @ p @ post"
    proof cases
      case 1
      then obtain r where "c # cs = p @ r" by (auto simp: startsWith_iff)
      then have "c # cs = [] @ p @ r" by simp
      then show ?thesis by blast
    next
      case 2
      with Cons.IH obtain pre post where "cs = pre @ p @ post" by blast
      then have "c # cs = (c # pre) @ p @ post" by simp
      then show ?thesis by blast
    qed
  next
    assume "\<exists>pre post. c # cs = pre @ p @ post"
    then obtain pre post where eq: "c # cs = pre @ p @ post" by blast
    show "includes_str (c # cs) p"
    proof (cases pre)
      case Nil
      with eq have "startsWith (c # cs) p" by (auto simp: startsWith_iff)
      then show ?thesis by simp
    next
      case (Cons d pre')
      with eq have "cs = pre' @ p @ post" by simp
      with Cons.IH have "includes_str cs p" by blast
      then show ?thesis by simp
    qed
  qed
qed

lemma includes_str_trans:
  "includes_str s t \<Longrightarrow> includes_str t p \<Longrightarrow> includes_str s p"
proof -
  assume "includes_str s t" "includes_str t p"
  then obtain a b c d where "s = a @ t @ b" "t = c @ p @ d"
    by (auto simp: includes_str_iff)
  then have "s = (a @ c) @ p @ (d @ b)" by simp
  then show ?thesis unfolding includes_str_iff by blast
qed

lemma includes_str_part: "includes_str (a @ p @ b) p"
  unfolding includes_str_iff by blast

lemma join_member: "x \<in> set xs \<Longrightarrow> includes_str (join sep xs) x"
proof (induction sep xs rule: join.induct)
  case (1 sep)
  then show ?case by simp
next
  case (2 sep y)
  then have "join sep [y] = [] @ x @ []" by simp
  then show ?case unfolding includes_str_iff by blast
next
  case (3 sep y z zs)
  show ?case
  proof (cases "x = y")
    case True
    then have "join sep (y # z # zs) = [] @ x @ (sep @ join sep (z # zs))" by simp
    then show ?thesis unfolding includes_str_iff by blast
  next
    case False
    with 3 have "includes_str (join sep (z # zs)) x" by simp
    then obtain a b where "join sep (z # zs) = a @ x @ b" by (auto simp: includes_str_iff)
    then have "join sep (y # z # zs) = (y @ sep @ a) @ x @ b" by simp
    then show ?thesis unfolding includes_str_iff by blast
  qed
qed

lemma base64Alphabet_safe: "c \<in> set base64Alphabet \<Longrightarrow> \<not> isHtmlSpecial c"
  by (auto simp: base64Alphabet_def js_def isHtmlSpecial_def)

lemma base64Char_safe: "\<not> isHtmlSpecial (base64Char n)"
proof -
  have "length base64Alphabet = 64" by (simp add: base64Alphabet_def js_def)
  then have "base64Char n \<in> set base64Alphabet"
    unfolding base64Char_def by (intro nth_mem) simp
  then show ?thesis by (rule base64Alphabet_safe)
qed

lemma base64_safe: "\<not> list_ex isHtmlSpecial (base64 bs)"
  by (induction bs rule: base64.induct) (simp_all add: base64Char_safe, simp_all add: isHtmlSpecial_def)

lemma generateSignature_safe: "escapeHtml (generateSignature h secret data) = generateSignature h secret data"
  by (simp add: generateSignature_def escapeHtml_safe base64_safe)


lemma renderAutoSubmitHTML_includes_inputs:
  "includes_str (renderAutoSubmitHTML h fd url lang) (renderHiddenInputs h fd)"
  unfolding renderAutoSubmitHTML_def Let_def
  by (rule join_member) simp

lemma renderHiddenInputs_line:
  assumes "(k, v) \<in> set (entries fd)"
  shows \<open>includes_str (renderHiddenInputs h fd)
           (js ''<input type="hidden" name="'' @ escapeHtml k @ js ''" value="''
              @ escapeHtml (toStr h v) @ js ''" />'')\<close>
  unfolding renderHiddenInputs_def
proof (rule join_member)
  let ?f = \<open>\<lambda>(key, v).
               let escapedKey = escapeHtml key;
                   escapedValue = escapeHtml (toStr h v)
               in js ''<input type="hidden" name="'' @ escapedKey @ js ''" value="'' @ escapedValue
                  @ js ''" />''\<close>
  have "?f (k, v) \<in> set (map ?f (entries fd))"
    unfolding set_map using assms by (rule imageI)
  then show \<open>js ''<input type="hidden" name="'' @ escapeHtml k @ js ''" value="''
              @ escapeHtml (toStr h v) @ js ''" />'' \<in> set (map ?f (entries fd))\<close>
    by (simp add: Let_def)
qed

lemma hidden_input_attributes:
  assumes "(k, v) \<in> set (entries fd)"
  shows \<open>includes_str (renderHiddenInputs h fd)
           (js ''name="'' @ escapeHtml k @ js ''" value="'' @ escapeHtml (toStr h v) @ js [CHR 0x22])\<close>
proof -
  have \<open>js ''<input type="hidden" name="'' @ escapeHtml k @ js ''" value="''
              @ escapeHtml (toStr h v) @ js ''" />''
        = js ''<input type="hidden" '' @
            (js ''name="'' @ escapeHtml k @ js ''" value="'' @ escapeHtml (toStr h v) @ js [CHR 0x22])
            @ js '' />''\<close>
    by (simp add: js_def)
  then have \<open>includes_str
           (js ''<input type="hidden" name="'' @ escapeHtml k @ js ''" value="''
              @ escapeHtml (toStr h v) @ js ''" />'')
           (js ''name="'' @ escapeHtml k @ js ''" value="'' @ escapeHtml (toStr h v) @ js [CHR 0x22])\<close>
    by (simp only: includes_str_part)
  with renderHiddenInputs_line [OF assms] show ?thesis by (rule includes_str_trans)
qed

lemma hidden_input_value:
  assumes "(k, v) \<in> set (entries fd)"
  shows \<open>includes_str (renderHiddenInputs h fd)
           (js ''value="'' @ escapeHtml (toStr h v) @ js [CHR 0x22])\<close>
proof -
  have \<open>js ''name="'' @ escapeHtml k @ js ''" value="'' @ escapeHtml (toStr h v) @ js [CHR 0x22]
        = (js ''name="'' @ escapeHtml k @ js ''" '') @
            (js ''value="'' @ escapeHtml (toStr h v) @ js [CHR 0x22]) @ []\<close>
    by (simp add: js_def)
  then have \<open>includes_str
           (js ''name="'' @ escapeHtml k @ js ''" value="'' @ escapeHtml (toStr h v) @ js [CHR 0x22])
           (js ''value="'' @ escapeHtml (toStr h v) @ js [CHR 0x22])\<close>
    by (simp only: includes_str_part)
  with hidden_input_attributes [OF assms] show ?thesis by (rule includes_str_trans)
qed

lemma entries_member:
  "(js ''random_nr'', random_nr fd) \<in> set (entries fd)"
  "(js ''platform_order_id'', platform_order_id fd) \<in> set (entries fd)"
  "(js ''signature'', signature fd) \<in> set (entries fd)"
  by (simp_all add: entries_def)

lemma buildFormData_fields:
  assumes "buildFormData h config options = Inr fd"
  shows "random_nr fd = (case o_randomNr options of
                           Some n \<Rightarrow> Num n
                         | None \<Rightarrow> Num (Finite (of_int (generateRandomNumber h))))"
    and "platform_order_id fd = resolveOrderId (o_buyer options)"
    and "signature fd =
           Str (generatePaymentSignature h (apiSecret config) (random_nr fd) (platform_order_id fd)
                  (Num (o_amount options))
                  (enumValue (CurrencyCode (case o_currency options of Some c \<Rightarrow> c | None \<Rightarrow> TL))))"
    and "validateAmount (o_amount options) = Inr ()"
    and "validateBuyer (o_buyer options) = Inr ()"
  using assms by (auto simp: buildFormData_def Let_def split: sum.splits if_splits)

lemma buildFormData_succeeds:
  assumes "validateAmount (o_amount options) = Inr ()" "validateBuyer (o_buyer options) = Inr ()"
    and "o_maxInstallment options = None"
  shows "\<exists>fd. buildFormData h config options = Inr fd"
  using assms by (simp add: buildFormData_def Let_def num_eq_def)

lemma createPayment_result:
  "createPayment h config options = Inr r \<longleftrightarrow>
     (\<exists>fd. buildFormData h config options = Inr fd \<and>
           r = \<lparr>html = renderAutoSubmitHTML h fd SHOPIER_ACTION_URL
                          (case o_language options of Some l \<Rightarrow> l | None \<Rightarrow> language config),
                formData = fd, actionUrl = SHOPIER_ACTION_URL,
                hiddenInputs = renderHiddenInputs h fd\<rparr>)"
  by (auto simp: createPayment_def Let_def split: sum.splits)


lemma numberToString_123456: "numberToString h (Finite 123456) = js ''123456''"
  by (simp add: numberToString_def intToString_def digits.simps js_def)

lemma numberToString_0: "numberToString h (Finite 0) = js ''0''"
  by (simp add: numberToString_def intToString_def digits.simps js_def)

lemma scenarioAmount_fraction:
  "numberToString h scenarioAmount = fractionToString h (7036170730324623 / 70368744177664)"
proof -
  have "\<lfloor>7036170730324623 / 70368744177664 :: rat\<rfloor> = 99"
    by (rule floor_unique) simp_all
  then show ?thesis
    by (simp add: numberToString_def scenarioAmount_def)
qed

lemma scenarioAmount_valid: "validateAmount scenarioAmount = Inr ()"
  by (simp add: validateAmount_def scenarioAmount_def isFinite_def num_le_def)

text \<open>
  Claim C2. In end-to-end scenario 1, on a host that prints the amount as \<open>99.99\<close>,
  \<open>createPayment\<close> returns a field set whose signature is the HMAC signature, under the
  secret \<open>s\<close>, of \<open>123456b199.990\<close>: the nonce, the order id, the amount and the currency
  code as the host prints them, joined in that order with nothing between; and the
  auto-submit page holds that signature inside a \<open>value="..."\<close> attribute.
\<close>

theorem createPayment_scenario_signature:
  assumes "fractionToString h (7036170730324623 / 70368744177664) = js ''99.99''"
  shows \<open>\<exists>r. createPayment h scenarioConfig scenarioOptions = Inr r \<and>
           signature (formData r) = Str (generateSignature h (js ''s'') (js ''123456b199.990'')) \<and>
           js ''123456b199.990'' =
             numberToString h (Finite 123456) @ js ''b1'' @ numberToString h scenarioAmount
               @ numberToString h (Finite (of_int (CurrencyCode TL))) \<and>
           includes_str (html r)
             (js ''value="'' @ generateSignature h (js ''s'') (js ''123456b199.990'') @ js [CHR 0x22])\<close>
proof -
  let ?sig = "generateSignature h (js ''s'') (js ''123456b199.990'')"
  have amount: "numberToString h scenarioAmount = js ''99.99''"
    by (simp add: scenarioAmount_fraction assms)
  have data: "numberToString h (Finite 123456) @ js ''b1'' @ numberToString h scenarioAmount
               @ numberToString h (Finite (of_int (CurrencyCode TL))) = js ''123456b199.990''"
    by (simp add: numberToString_123456 numberToString_0 amount) (simp add: js_def)
  have "\<exists>fd. buildFormData h scenarioConfig scenarioOptions = Inr fd"
    by (rule buildFormData_succeeds)
       (simp_all add: scenarioOptions_def scenarioAmount_valid validateBuyer_scenario)
  then obtain fd where fd: "buildFormData h scenarioConfig scenarioOptions = Inr fd" ..
  have order: "resolveOrderId scenarioBuyer = Str (js ''b1'')"
    by (simp add: resolveOrderId_def scenarioBuyer_def ofOption_def)
  from buildFormData_fields(1-3) [OF fd]
  have "signature fd =
          Str (generatePaymentSignature h (js ''s'') (Num (Finite 123456)) (Str (js ''b1''))
                 (Num scenarioAmount) (enumValue (CurrencyCode TL)))"
    by (simp add: scenarioOptions_def scenarioConfig_def order)
  then have sig: "signature fd = Str ?sig"
    by (simp add: generatePaymentSignature_def toStr_def enumValue_def data [symmetric])
  let ?r = "\<lparr>html = renderAutoSubmitHTML h fd SHOPIER_ACTION_URL
                   (case o_language scenarioOptions of Some l \<Rightarrow> l | None \<Rightarrow> language scenarioConfig),
            formData = fd, actionUrl = SHOPIER_ACTION_URL, hiddenInputs = renderHiddenInputs h fd\<rparr>"
  have r: "createPayment h scenarioConfig scenarioOptions = Inr ?r"
    unfolding createPayment_result using fd by blast
  have \<open>includes_str (renderHiddenInputs h fd)
          (js ''value="'' @ escapeHtml (toStr h (signature fd)) @ js [CHR 0x22])\<close>
    by (rule hidden_input_value) (rule entries_member)
  then have \<open>includes_str (renderHiddenInputs h fd) (js ''value="'' @ ?sig @ js [CHR 0x22])\<close>
    by (simp add: sig toStr_def generateSignature_safe)
  with renderAutoSubmitHTML_includes_inputs
  have \<open>includes_str (html ?r) (js ''value="'' @ ?sig @ js [CHR 0x22])\<close>
    unfolding PaymentResult.simps by (rule includes_str_trans)
  with r sig data show ?thesis
    by (intro exI [of _ ?r]) simp
qed

lemma testHost_payment_signature:
  "generateSignature testHost (js ''s'') (js ''123456b199.990'')
     = js ''czEyMzQ1NmIxOTkuOTkwAAAAAAAAAAAAAAAAAAAAAAA=''"
  by (simp add: generateSignature_def testHost_def js_def utf8_unit_def base64Char_def
        base64Alphabet_def replicate_numeral)

text \<open>
  The theorem on the example host, which prints the amount as \<open>99.99\<close>: the signature field
  and the page's \<open>value\<close> attribute hold the signature of \<open>123456b199.990\<close>.
\<close>

theorem createPayment_scenario_signature_witness:
  \<open>\<exists>r. createPayment testHost scenarioConfig scenarioOptions = Inr r \<and>
       signature (formData r) = Str (js ''czEyMzQ1NmIxOTkuOTkwAAAAAAAAAAAAAAAAAAAAAAA='') \<and>
       includes_str (html r) (js ''value="czEyMzQ1NmIxOTkuOTkwAAAAAAAAAAAAAAAAAAAAAAA="'')\<close>
proof -
  have h: "fractionToString testHost (7036170730324623 / 70368744177664) = js ''99.99''"
    by (simp add: testHost_def)
  have v: \<open>js ''value="'' @ js ''czEyMzQ1NmIxOTkuOTkwAAAAAAAAAAAAAAAAAAAAAAA='' @ js [CHR 0x22]
            = js ''value="czEyMzQ1NmIxOTkuOTkwAAAAAAAAAAAAAAAAAAAAAAA="''\<close>
    by (simp add: js_def)
  from createPayment_scenario_signature [OF h] show ?thesis
    unfolding testHost_payment_signature v by blast
qed


section \<open>Escaping in the rendered outputs\<close>

lemma startsWith_extend: "startsWith s e \<Longrightarrow> startsWith (s @ t) e"
  by (auto simp: startsWith_iff)

lemma ampersandsEscaped_append:
  "ampersandsEscaped a \<Longrightarrow> ampersandsEscaped b \<Longrightarrow> ampersandsEscaped (a @ b)"
proof (induction a)
  case Nil
  then show ?case by simp
next
  case (Cons c cs)
  then have rest: "ampersandsEscaped (cs @ b)" by simp
  show ?case
  proof (cases "c = 0x26")
    case True
    with Cons.prems(1) have "list_ex (startsWith (c # cs)) entities" by simp
    then obtain e where e: "e \<in> set entities" "startsWith (c # cs) e"
      unfolding list_ex_iff by blast
    from e(2) have "startsWith ((c # cs) @ b) e" by (rule startsWith_extend)
    with e(1) have "list_ex (startsWith (c # cs @ b)) entities"
      unfolding list_ex_iff by auto
    with rest True show ?thesis by simp
  next
    case False
    with rest show ?thesis by simp
  qed
qed

lemma ampersandsEscaped_plain: "0x26 \<notin> set s \<Longrightarrow> ampersandsEscaped s"
  by (induction s) auto

lemma ampersandsEscaped_entity:
  assumes "isHtmlSpecial c"
  shows "ampersandsEscaped (escapeReplacer c)"
proof -
  from escapeReplacer_entity [OF assms]
  have e: "escapeReplacer c \<in> set entities" "hd (escapeReplacer c) = 0x26"
    "0x26 \<notin> set (tl (escapeReplacer c))" "escapeReplacer c \<noteq> []"
    by simp_all
  from e(2,4) obtain t where t: "escapeReplacer c = 0x26 # t" by (cases "escapeReplacer c") auto
  with e(3) have "ampersandsEscaped t" by (simp add: ampersandsEscaped_plain)
  moreover have "startsWith (0x26 # t) (escapeReplacer c)"
    using startsWith_append [of "escapeReplacer c" "[]"] t by simp
  with e(1) have "list_ex (startsWith (0x26 # t)) entities" by (auto simp: list_ex_iff)
  ultimately show ?thesis by (simp add: t)
qed

lemma ampersandsEscaped_escapeHtml: "ampersandsEscaped (escapeHtml s)"
proof (induction s)
  case Nil
  then show ?case by (simp add: escapeHtml_Nil)
next
  case (Cons c cs)
  have "ampersandsEscaped (if isHtmlSpecial c then escapeReplacer c else [c])"
    by (auto simp: ampersandsEscaped_entity isHtmlSpecial_def)
  with Cons show ?case
    by (simp only: escapeHtml_Cons ampersandsEscaped_append)
qed

lemma ampersandsEscaped_join:
  "ampersandsEscaped sep \<Longrightarrow> (\<And>x. x \<in> set xs \<Longrightarrow> ampersandsEscaped x) \<Longrightarrow>
     ampersandsEscaped (join sep xs)"
  by (induction sep xs rule: join.induct) (simp_all add: ampersandsEscaped_append)

lemma ampersandsEscaped_at:
  "ampersandsEscaped (pre @ 0x26 # post) \<Longrightarrow> list_ex (startsWith (0x26 # post)) entities"
  by (induction pre) (simp_all split: if_splits)

lemma ampersandsEscaped_renderHiddenInputs: "ampersandsEscaped (renderHiddenInputs h fd)"
  unfolding renderHiddenInputs_def
proof (rule ampersandsEscaped_join)
  show "ampersandsEscaped (js [CHR 0x0A])" by (simp add: js_def)
next
  fix x
  assume \<open>x \<in> set (map (\<lambda>(key, v).
               let escapedKey = escapeHtml key;
                   escapedValue = escapeHtml (toStr h v)
               in js ''<input type="hidden" name="'' @ escapedKey @ js ''" value="'' @ escapedValue
                  @ js ''" />'')
            (entries fd))\<close>
  then obtain k v where x: \<open>x = js ''<input type="hidden" name="'' @ escapeHtml k @ js ''" value="''
       @ escapeHtml (toStr h v) @ js ''" />''\<close>
    by (auto simp: Let_def)
  have \<open>ampersandsEscaped (js ''<input type="hidden" name="'')\<close>
    \<open>ampersandsEscaped (js ''" value="'')\<close> \<open>ampersandsEscaped (js ''" />'')\<close>
    by (simp_all add: js_def)
  then show "ampersandsEscaped x"
    unfolding x by (intro ampersandsEscaped_append ampersandsEscaped_escapeHtml)
qed


lemma unat_of_char: "unat (of_char c :: code_unit) = of_char c"
proof -
  have "(of_char c :: nat) < 256" by (rule nat_of_char_less_256)
  then have "(of_char c :: nat) < 2 ^ 16" by (rule less_trans) simp
  then have "unat (of_nat (of_char c :: nat) :: code_unit) = (of_char c :: nat)"
    by (simp add: unat_of_nat del: of_nat_of_char)
  then show ?thesis by (simp only: of_nat_of_char)
qed

lemma js_ampersand:
  assumes "(of_char c :: code_unit) = 0x26"
  shows "c = CHR ''&''"
proof -
  from assms have "unat (of_char c :: code_unit) = 38" by simp
  then have "(of_char c :: nat) = of_char CHR ''&''" by (simp add: unat_of_char)
  then show ?thesis by (simp only: of_char_eq_iff)
qed

lemma ampersandsEscaped_renderAutoSubmitHTML:
  "ampersandsEscaped (renderAutoSubmitHTML h fd url lang)"
  unfolding renderAutoSubmitHTML_def Let_def
proof (rule ampersandsEscaped_join)
  show "ampersandsEscaped (js [CHR 0x0A])" by (simp add: js_def)
next
  fix x
  have form: \<open>ampersandsEscaped (js ''    <p>'' @ escapeHtml (loadingMessage lang) @ js ''</p>'')\<close>
    \<open>ampersandsEscaped (js ''  <form id="shopier-form" action="'' @ escapeHtml url
        @ js ''" method="POST">'')\<close>
    by (intro ampersandsEscaped_append ampersandsEscaped_escapeHtml; simp add: js_def)+
  assume \<open>x \<in> set [js ''<!DOCTYPE html>'',
            js ''<html>'',
            js ''<head>'',
            js ''  <meta charset="UTF-8">'',
            js ''  <meta name="viewport" content="width=device-width, initial-scale=1.0">'',
            js ''  <title>Shopier Payment</title>'',
            js ''  <style>'',
            js ''    body {'',
            js ''      font-family: -apple-system, BlinkMacSystemFont, 'Segoe UI', Roboto, sans-serif;'',
            js ''      display: flex;'',
            js ''      justify-content: center;'',
            js ''      align-items: center;'',
            js ''      height: 100vh;'',
            js ''      margin: 0;'',
            js ''      background-color: #f5f5f5;'',
            js ''    }'',
            js ''    .loading {'',
            js ''      text-align: center;'',
            js ''      color: #333;'',
            js ''    }'',
            js ''    .spinner {'',
            js ''      border: 3px solid #f3f3f3;'',
            js ''      border-top: 3px solid #3498db;'',
            js ''      border-radius: 50%;'',
            js ''      width: 40px;'',
            js ''      height: 40px;'',
            js ''      animation: spin 1s linear infinite;'',
            js ''      margin: 0 auto 20px;'',
            js ''    }'',
            js ''    @keyframes spin {'',
            js ''      0% { transform: rotate(0deg); }'',
            js ''      100% { transform: rotate(360deg); }'',
            js ''    }'',
            js ''  </style>'',
            js ''</head>'',
            js ''<body>'',
            js ''  <div class="loading">'',
            js ''    <div class="spinner"></div>'',
            js ''    <p>'' @ escapeHtml (loadingMessage lang) @ js ''</p>'',
            js ''  </div>'',
            js ''  <form id="shopier-form" action="'' @ escapeHtml url @ js ''" method="POST">'',
            renderHiddenInputs h fd,
            js ''  </form>'',
            js ''  <script>'',
            js ''    document.getElementById('shopier-form').submit();'',
            js ''  </script>'',
            js ''</body>'',
            js ''</html>'']\<close>
  then consider \<open>x = js ''    <p>'' @ escapeHtml (loadingMessage lang) @ js ''</p>''\<close>
    | \<open>x = js ''  <form id="shopier-form" action="'' @ escapeHtml url @ js ''" method="POST">''\<close>
    | "x = renderHiddenInputs h fd"
    | s where "x = js s" "CHR ''&'' \<notin> set s"
    by (simp only: set_simps insert_iff empty_iff) (elim disjE; simp)
  then show "ampersandsEscaped x"
  proof cases
    case 1
    with form show ?thesis by simp
  next
    case 2
    with form show ?thesis by simp
  next
    case 3
    then show ?thesis by (simp add: ampersandsEscaped_renderHiddenInputs)
  next
    case 4
    then have "0x26 \<notin> set x" by (auto simp: js_def dest: js_ampersand)
    then show ?thesis by (rule ampersandsEscaped_plain)
  qed
qed

lemma ampersandsEscaped_no_raw:
  assumes "ampersandsEscaped s"
  shows "\<not> includes_str s (js ''a&b'')"
proof
  assume "includes_str s (js ''a&b'')"
  then obtain pre post where "s = pre @ js ''a&b'' @ post"
    unfolding includes_str_iff by blast
  then have "s = (pre @ [0x61]) @ 0x26 # (0x62 # post)" by (simp add: js_def)
  with assms have "list_ex (startsWith (0x26 # 0x62 # post)) entities"
    using ampersandsEscaped_at by blast
  then show False
    by (simp add: entities_def HTML_ESCAPE_MAP_def js_def)
qed


lemma digit_unit_safe: "d < 10 \<Longrightarrow> \<not> isHtmlSpecial (of_nat (48 + d))"
proof -
  assume "d < 10"
  then have "d = 0 \<or> d = 1 \<or> d = 2 \<or> d = 3 \<or> d = 4 \<or> d = 5 \<or> d = 6 \<or> d = 7 \<or> d = 8 \<or> d = 9"
    by arith
  then show ?thesis by (auto simp: isHtmlSpecial_def)
qed

lemma intToString_safe: "\<not> list_ex isHtmlSpecial (intToString i)"
proof -
  have "\<not> list_ex isHtmlSpecial (digits n)" for n
    unfolding list_ex_iff using digits_units digit_unit_safe by blast
  then show ?thesis
    by (simp add: intToString_def js_def isHtmlSpecial_def)
qed

lemma numberToString_safe:
  assumes "\<And>q. \<not> list_ex isHtmlSpecial (fractionToString h q)"
  shows "\<not> list_ex isHtmlSpecial (numberToString h x)"
proof (cases x)
  case (Finite q)
  with assms show ?thesis
    by (simp add: numberToString_def intToString_safe)
next
  case NaN
  then show ?thesis by (simp add: numberToString_def js_def isHtmlSpecial_def)
next
  case PosInfinity
  then show ?thesis by (simp add: numberToString_def js_def isHtmlSpecial_def)
next
  case NegInfinity
  then show ?thesis by (simp add: numberToString_def js_def isHtmlSpecial_def)
qed

lemma field_names_plain:
  "escapeHtml (js ''random_nr'') = js ''random_nr''"
  "escapeHtml (js ''platform_order_id'') = js ''platform_order_id''"
  by (rule escapeHtml_safe, simp add: js_def isHtmlSpecial_def)+

text \<open>
  Claim C6, as amended. A payment built with the nonce override \<open>N\<close> for a buyer whose order
  id resolves to \<open>oid\<close> carries \<open>N\<close> as \<open>random_nr\<close> and \<open>oid\<close> as \<open>platform_order_id\<close>,
  unchanged, in the field set and in the plain-object rendering. The hidden inputs and the
  auto-submit page hold both as the \<open>value\<close> of the inputs of those names, passed through
  \<open>escapeHtml\<close>. The nonce, whatever number it is, appears there unchanged, as the host
  prints it, because the host's rendering of a number holds none of the five special
  characters (\<open>Number::toString\<close> yields digits, \<open>.\<close>, \<open>e\<close>, \<open>+\<close> and \<open>-\<close>). The order id
  appears HTML-escaped: unchanged when it holds none of the five special characters.
\<close>

theorem createPayment_embeds_nonce_and_order:
  assumes "o_randomNr options = Some N"
    and "resolveOrderId (o_buyer options) = Str oid"
    and "createPayment h config options = Inr r"
  shows \<open>random_nr (formData r) = Num N \<and> platform_order_id (formData r) = Str oid \<and>
         fdr_formData (getFormDataObject (formData r) url) = formData r \<and>
         includes_str (hiddenInputs r)
           (js ''name="random_nr" value="'' @ escapeHtml (numberToString h N) @ js [CHR 0x22]) \<and>
         includes_str (html r)
           (js ''name="random_nr" value="'' @ escapeHtml (numberToString h N) @ js [CHR 0x22]) \<and>
         ((\<forall>q. \<not> list_ex isHtmlSpecial (fractionToString h q)) \<longrightarrow>
            includes_str (hiddenInputs r)
              (js ''name="random_nr" value="'' @ numberToString h N @ js [CHR 0x22]) \<and>
            includes_str (html r)
              (js ''name="random_nr" value="'' @ numberToString h N @ js [CHR 0x22])) \<and>
         includes_str (hiddenInputs r)
           (js ''name="platform_order_id" value="'' @ escapeHtml oid @ js [CHR 0x22]) \<and>
         includes_str (html r)
           (js ''name="platform_order_id" value="'' @ escapeHtml oid @ js [CHR 0x22]) \<and>
         (\<not> list_ex isHtmlSpecial oid \<longrightarrow>
            includes_str (hiddenInputs r) (js ''name="platform_order_id" value="'' @ oid @ js [CHR 0x22]) \<and>
            includes_str (html r) (js ''name="platform_order_id" value="'' @ oid @ js [CHR 0x22]))\<close>
proof -
  from assms(3) obtain fd where fd: "buildFormData h config options = Inr fd"
    and r: "formData r = fd" "hiddenInputs r = renderHiddenInputs h fd"
      "html r = renderAutoSubmitHTML h fd SHOPIER_ACTION_URL
                  (case o_language options of Some l \<Rightarrow> l | None \<Rightarrow> language config)"
    unfolding createPayment_result by auto
  from buildFormData_fields(1,2) [OF fd] assms(1,2)
  have fields: "random_nr fd = Num N" "platform_order_id fd = Str oid" by simp_all
  have plain: "fdr_formData (getFormDataObject (formData r) url) = formData r"
    by (simp add: getFormDataObject_def)
  have names: \<open>js ''name="'' @ js ''random_nr'' @ js ''" value="'' @ x = js ''name="random_nr" value="'' @ x\<close>
    \<open>js ''name="'' @ js ''platform_order_id'' @ js ''" value="'' @ x
       = js ''name="platform_order_id" value="'' @ x\<close> for x
    by (simp_all add: js_def)
  have n: \<open>includes_str (renderHiddenInputs h fd)
              (js ''name="random_nr" value="'' @ escapeHtml (numberToString h N) @ js [CHR 0x22])\<close>
    using hidden_input_attributes [OF entries_member(1), of h fd]
    by (simp add: fields toStr_def field_names_plain names)
  have o: \<open>includes_str (renderHiddenInputs h fd)
              (js ''name="platform_order_id" value="'' @ escapeHtml oid @ js [CHR 0x22])\<close>
    using hidden_input_attributes [OF entries_member(2), of h fd]
    by (simp add: fields toStr_def field_names_plain names)
  have page: "includes_str (renderHiddenInputs h fd) p \<Longrightarrow> includes_str (html r) p" for p
    unfolding r(3) using renderAutoSubmitHTML_includes_inputs by (rule includes_str_trans)
  have number: "(\<forall>q. \<not> list_ex isHtmlSpecial (fractionToString h q)) \<longrightarrow>
                  escapeHtml (numberToString h N) = numberToString h N"
    by (simp add: escapeHtml_safe numberToString_safe)
  have safe: "\<not> list_ex isHtmlSpecial oid \<longrightarrow> escapeHtml oid = oid"
    by (simp add: escapeHtml_safe)
  from n o page [OF n] page [OF o] number safe fields plain show ?thesis
    unfolding r(1,2) by (metis (no_types, lifting))
qed


text \<open>
  The theorem at scenario 1: the nonce 123456 and the order id \<open>b1\<close> stand unchanged in
  the field set, in the hidden inputs and in the page.
\<close>

theorem createPayment_embeds_nonce_and_order_witness:
  \<open>\<exists>r. createPayment testHost scenarioConfig scenarioOptions = Inr r \<and>
       random_nr (formData r) = Num (Finite 123456) \<and>
       platform_order_id (formData r) = Str (js ''b1'') \<and>
       includes_str (hiddenInputs r) (js ''name="random_nr" value="123456"'') \<and>
       includes_str (hiddenInputs r) (js ''name="platform_order_id" value="b1"'') \<and>
       includes_str (html r) (js ''name="random_nr" value="123456"'') \<and>
       includes_str (html r) (js ''name="platform_order_id" value="b1"'')\<close>
proof -
  have "\<exists>fd. buildFormData testHost scenarioConfig scenarioOptions = Inr fd"
    by (rule buildFormData_succeeds)
       (simp_all add: scenarioOptions_def scenarioAmount_valid validateBuyer_scenario)
  then obtain r where r: "createPayment testHost scenarioConfig scenarioOptions = Inr r"
    unfolding createPayment_result by blast
  have n: "o_randomNr scenarioOptions = Some (Finite 123456)"
    by (simp add: scenarioOptions_def)
  have o: "resolveOrderId (o_buyer scenarioOptions) = Str (js ''b1'')"
    by (simp add: scenarioOptions_def resolveOrderId_def scenarioBuyer_def ofOption_def)
  have plain: "\<not> list_ex isHtmlSpecial (js ''b1'')"
    by (simp add: js_def isHtmlSpecial_def)
  have host: "\<forall>q. \<not> list_ex isHtmlSpecial (fractionToString testHost q)"
    by (simp add: testHost_def js_def isHtmlSpecial_def)
  have rendered: \<open>js ''name="random_nr" value="'' @ numberToString testHost (Finite 123456) @ js [CHR 0x22]
                = js ''name="random_nr" value="123456"''\<close>
    \<open>js ''name="platform_order_id" value="'' @ js ''b1'' @ js [CHR 0x22]
       = js ''name="platform_order_id" value="b1"''\<close>
    by (simp_all add: numberToString_123456) (simp_all add: js_def)
  from createPayment_embeds_nonce_and_order [OF n o r] plain host
  have "random_nr (formData r) = Num (Finite 123456)"
    "platform_order_id (formData r) = Str (js ''b1'')"
    \<open>includes_str (hiddenInputs r)
       (js ''name="random_nr" value="'' @ numberToString testHost (Finite 123456) @ js [CHR 0x22])\<close>
    \<open>includes_str (hiddenInputs r) (js ''name="platform_order_id" value="'' @ js ''b1'' @ js [CHR 0x22])\<close>
    \<open>includes_str (html r)
       (js ''name="random_nr" value="'' @ numberToString testHost (Finite 123456) @ js [CHR 0x22])\<close>
    \<open>includes_str (html r) (js ''name="platform_order_id" value="'' @ js ''b1'' @ js [CHR 0x22])\<close>
    by blast+
  with r show ?thesis
    unfolding rendered by (intro exI [of _ r]) simp
qed

text \<open>
  Claim C6 as stated fails for an order id with a special character. For the valid payment
  of scenario 1 with buyer id \<open>a&b\<close> and amount 100, the field set holds \<open>a&b\<close>, but
  neither the hidden inputs nor the auto-submit page contains the text \<open>a&b\<close>: the
  input's value is \<open>a&amp;b\<close>.
\<close>

theorem createPayment_order_id_escaped:
  \<open>o_randomNr ampOptions = Some (Finite 123456) \<and>
   resolveOrderId (o_buyer ampOptions) = Str (js ''a&b'') \<and>
   \<not> isl (createPayment testHost scenarioConfig ampOptions) \<and>
   platform_order_id (formData (projr (createPayment testHost scenarioConfig ampOptions)))
     = Str (js ''a&b'') \<and>
   \<not> includes_str (hiddenInputs (projr (createPayment testHost scenarioConfig ampOptions))) (js ''a&b'') \<and>
   \<not> includes_str (html (projr (createPayment testHost scenarioConfig ampOptions))) (js ''a&b'') \<and>
   includes_str (hiddenInputs (projr (createPayment testHost scenarioConfig ampOptions)))
     (js ''name="platform_order_id" value="a&amp;b"'')\<close>
proof -
  have n: "o_randomNr ampOptions = Some (Finite 123456)"
    by (simp add: ampOptions_def scenarioOptions_def)
  have o: "resolveOrderId (o_buyer ampOptions) = Str (js ''a&b'')"
    by (simp add: ampOptions_def resolveOrderId_def scenarioBuyer_def ofOption_def)
  have id: "\<not> isMissing (Some (js ''a&b''))"
    by (simp add: isMissing_def trim_def trimStart_def trimEnd_def js_def isWhiteSpace_def)
  have "missingFieldsOf (o_buyer ampOptions) = []"
    using scenarioBuyer_complete id by (simp add: missingFieldsOf_empty ampOptions_def)
  moreover have "validateEmail (b_email (o_buyer ampOptions))" "validatePhone (b_phone (o_buyer ampOptions))"
    by (simp_all add: ampOptions_def scenarioBuyer_def validateEmail_scenario validatePhone_scenario)
  ultimately have buyer: "validateBuyer (o_buyer ampOptions) = Inr ()"
    by (simp add: validateBuyer_def)
  have amount: "validateAmount (o_amount ampOptions) = Inr ()"
    by (simp add: ampOptions_def validateAmount_def isFinite_def num_le_def)
  have "\<exists>fd. buildFormData testHost scenarioConfig ampOptions = Inr fd"
    using amount buyer by (rule buildFormData_succeeds) (simp add: ampOptions_def scenarioOptions_def)
  then obtain fd where fd: "buildFormData testHost scenarioConfig ampOptions = Inr fd" ..
  let ?r = "\<lparr>html = renderAutoSubmitHTML testHost fd SHOPIER_ACTION_URL
                   (case o_language ampOptions of Some l \<Rightarrow> l | None \<Rightarrow> language scenarioConfig),
            formData = fd, actionUrl = SHOPIER_ACTION_URL,
            hiddenInputs = renderHiddenInputs testHost fd\<rparr>"
  have r: "createPayment testHost scenarioConfig ampOptions = Inr ?r"
    unfolding createPayment_result using fd by blast
  have field: "platform_order_id fd = Str (js ''a&b'')"
    using buildFormData_fields(2) [OF fd] o by simp
  have esc: "escapeHtml (js ''a&b'') = js ''a&amp;b''"
    by (simp add: js_def escapeHtml_Cons escapeHtml_Nil isHtmlSpecial_def escapeReplacer_special)
  have rendered: \<open>js ''name="'' @ js ''platform_order_id'' @ js ''" value="'' @ js ''a&amp;b'' @ js [CHR 0x22]
                = js ''name="platform_order_id" value="a&amp;b"''\<close>
    by (simp add: js_def)
  have shown: \<open>includes_str (renderHiddenInputs testHost fd) (js ''name="platform_order_id" value="a&amp;b"'')\<close>
    using hidden_input_attributes [OF entries_member(2), of testHost fd]
    by (simp add: field toStr_def field_names_plain esc rendered)
  from n o field shown show ?thesis
    unfolding r
    by (simp add: ampersandsEscaped_no_raw ampersandsEscaped_renderHiddenInputs
          ampersandsEscaped_renderAutoSubmitHTML)
qed

end
